theory Spec2Isabelle
  imports Main "HOL-Library.Word"
begin

section \<open>Source images\<close>

text \<open>
  A \<open>GdkPixbuf\<close> as the converters read it: the five values returned by
  \<open>gdk_pixbuf_get_width\<close>, \<open>_get_height\<close>, \<open>_get_rowstride\<close>,
  \<open>_get_n_channels\<close> (C \<open>int\<close>s) and \<open>_get_pixels\<close> (the byte buffer).
\<close>

type_synonym guchar = "8 word"

record GdkPixbuf =
  pb_width :: int
  pb_height :: int
  pb_rowstride :: int
  pb_n_channels :: int
  pb_pixels :: "guchar list"

text \<open>
  The C code indexes the pixel buffer by pointer arithmetic. A read outside the buffer
  and an \<open>int\<close> product outside the 32-bit range are undefined behaviour: each is a
  fault of the model, never a value.
\<close>

datatype fault = OutOfBounds | SignedOverflow

definition read_byte :: "guchar list \<Rightarrow> int \<Rightarrow> fault + guchar" where
  "read_byte buf i =
     (if 0 \<le> i \<and> i < int (length buf) then Inr (buf ! nat i) else Inl OutOfBounds)"

text \<open>
  The pixel buffer of a pixbuf built by the image library: positive dimensions, three or
  four channels, rows that fit their stride, a buffer that holds the last row, and a
  last row offset that is a C \<open>int\<close>.
\<close>

definition valid_source_image :: "GdkPixbuf \<Rightarrow> bool" where
  "valid_source_image pb =
     (0 < pb_width pb \<and> 0 < pb_height pb \<and>
      (pb_n_channels pb = 3 \<or> pb_n_channels pb = 4) \<and>
      pb_width pb * pb_n_channels pb \<le> pb_rowstride pb \<and>
      (pb_height pb - 1) * pb_rowstride pb + pb_width pb * pb_n_channels pb
         \<le> int (length (pb_pixels pb)) \<and>
      pb_height pb * pb_rowstride pb < 2 ^ 31)"

section \<open>Callback contract and native data\<close>

text \<open>
  \<open>tray-backend.h\<close>: a click callback is a host function called with its user data; the
  model keeps its address and records every call. A menu callback is called with a menu
  container (or \<open>NULL\<close>), a button code, a timestamp and the user data. What the tray
  owns of its effect is the content of the container it was handed, so a menu callback
  is the function from the container's children (and the three other arguments) to the
  children it leaves behind. Callbacks do not call back into the tray.
\<close>

type_synonym pointer = nat
type_synonym GtkWidget = nat
type_synonym TrayClickCallback = pointer
type_synonym TrayMenuCallback = "GtkWidget list \<Rightarrow> nat \<Rightarrow> nat \<Rightarrow> pointer \<Rightarrow> GtkWidget list"

subsection \<open>Shell-notification-icon backend (\<open>tray-windows.c\<close>)\<close>

text \<open>
  The native calls whose outcome the backend uses, as parameters of the model:
  \<open>CreateDIBSection\<close> (given \<open>bV5Width\<close> and \<open>bV5Height\<close>) may fail to give a bitmap,
  \<open>CreateIconIndirect\<close> may return \<open>NULL\<close>, \<open>CreateWindowExW\<close> returns a window or
  \<open>NULL\<close>, and \<open>MultiByteToWideChar\<close> maps the UTF-8 text, the capacity of the
  destination and its old content to its new content.
\<close>

type_synonym WCHAR = "16 word"
type_synonym HWND = nat

record win32 =
  CreateDIBSection_ok :: "int \<Rightarrow> int \<Rightarrow> bool"
  CreateIconIndirect_ok :: "int \<Rightarrow> int \<Rightarrow> guchar list \<Rightarrow> bool"
  CreateWindowExW :: "HWND option"
  MultiByteToWideChar :: "string \<Rightarrow> nat \<Rightarrow> WCHAR list \<Rightarrow> WCHAR list"

text \<open>
  An icon is the colour bitmap it was built from: the header fields the code sets and the
  bytes it wrote to \<open>bits\<close>. The 1-bit mask is created with no initial data and never
  written.
\<close>

record HICON =
  bV5Width :: int
  bV5Height :: int
  bV5BitCount :: nat
  color_bits :: "guchar list"


text \<open>
  The icon descriptor handed to the shell, with the fields the backend sets
  (\<open>cbSize\<close> is a constant of the platform and is left out).
\<close>

record NOTIFYICONDATAW =
  nid_hWnd :: "HWND option"
  nid_uID :: nat
  nid_uFlags :: nat
  nid_uCallbackMessage :: nat
  nid_hIcon :: "HICON option"
  nid_szTip :: "WCHAR list"

text \<open>
  Each backend file has its own \<open>struct _TrayBackend\<close>; the fields keep their names
  behind the prefix of the backend (\<open>win_\<close>, \<open>linux_\<close>, \<open>mac_\<close>). A handle is
  \<open>None\<close> for \<open>NULL\<close> and \<open>Some\<close> of the structure it points to; an operation returns
  the handle as it leaves it, with the calls it made.
\<close>

record win_backend =
  win_nid :: NOTIFYICONDATAW
  win_hwnd :: "HWND option"
  win_hicon :: "HICON option"
  win_current_icon :: "GdkPixbuf option"
  win_visible :: bool
  win_activate_callback :: "TrayClickCallback option"
  win_activate_userdata :: pointer
  win_menu_callback :: "TrayMenuCallback option"
  win_menu_userdata :: pointer
  win_embedded_callback :: "TrayClickCallback option"
  win_embedded_userdata :: pointer

datatype NIM = NIM_ADD | NIM_MODIFY | NIM_DELETE

subsection \<open>Desktop-indicator backend (\<open>tray-linux.c\<close>)\<close>

text \<open>
  The indicator object of the native library, with the properties the backend sets or
  reads, and whether the backend's menu has been attached to it. A menu container is the
  list of its children. Native outcomes taken as parameters: whether \<open>gdk_pixbuf_save\<close>
  writes the file, the process id, and the clock read by \<open>g_get_real_time\<close>.
\<close>

datatype AppIndicatorStatus =
  APP_INDICATOR_STATUS_PASSIVE | APP_INDICATOR_STATUS_ACTIVE | APP_INDICATOR_STATUS_ATTENTION

record AppIndicator =
  ai_id :: string
  ai_icon_name :: string
  ai_icon_desc :: "string option"
  ai_icon_theme_path :: "string option"
  ai_title :: "string option"
  ai_status :: AppIndicatorStatus
  ai_menu_attached :: bool

type_synonym GtkMenu = "GtkWidget list"

record posix =
  gdk_pixbuf_save_ok :: "GdkPixbuf \<Rightarrow> string \<Rightarrow> bool"
  getpid :: int
  g_get_real_time :: int

record linux_backend =
  linux_indicator :: "AppIndicator option"
  linux_menu :: "GtkMenu option"
  linux_current_icon :: "GdkPixbuf option"
  linux_icon_name :: "string option"
  linux_temp_icon_path :: "string option"
  linux_activate_callback :: "TrayClickCallback option"
  linux_activate_userdata :: pointer
  linux_menu_callback :: "TrayMenuCallback option"
  linux_menu_userdata :: pointer
  linux_embedded_callback :: "TrayClickCallback option"
  linux_embedded_userdata :: pointer

subsection \<open>Status-bar-item backend (\<open>tray-macos.m\<close>)\<close>

text \<open>
  The native objects as values: an image with its bitmap representation, size and
  template flag; the button of a status item; the status item; the delegate with its
  two callback slots. A message sent to \<open>nil\<close> does nothing and returns \<open>nil\<close>, so an
  absent object is \<open>None\<close> and a message to it leaves everything as it is. The lines the
  backend appends to its log file are left out.
\<close>

record NSImage =
  img_pixelsWide :: int
  img_pixelsHigh :: int
  img_bitmapData :: "guchar list"
  img_size :: "nat \<times> nat"
  img_isTemplate :: bool

record NSStatusBarButton =
  btn_has_target :: bool
  btn_title :: string
  btn_image :: "NSImage option"
  btn_toolTip :: "string option"

record NSStatusItem =
  si_autosaveName :: "string option"
  si_button :: "NSStatusBarButton option"
  si_isVisible :: bool

record PChatTrayDelegate =
  dlg_activateCallback :: "TrayClickCallback option"
  dlg_activateUserdata :: pointer
  dlg_menuCallback :: "TrayMenuCallback option"
  dlg_menuUserdata :: pointer

record mac_backend =
  mac_statusItem :: "NSStatusItem option"
  mac_currentImage :: "NSImage option"
  mac_delegate :: "PChatTrayDelegate option"
  mac_currentIcon :: "GdkPixbuf option"
  mac_tooltip :: "string option"
  mac_visible :: bool
  mac_activateCallback :: "TrayClickCallback option"
  mac_activateUserdata :: pointer
  mac_menuCallback :: "TrayMenuCallback option"
  mac_menuUserdata :: pointer
  mac_embeddedCallback :: "TrayClickCallback option"
  mac_embeddedUserdata :: pointer

text \<open>
  \<open>DeferredTrayData\<close>; its \<open>backend\<close> pointer is the handle returned by
  \<open>tray_macos_new\<close>, which the model passes along with it.
\<close>

record DeferredTrayData =
  def_icon :: "GdkPixbuf option"
  def_tooltip :: "string option"
  def_attempts :: int

text \<open>
  What the platform answers during one run of the deferred creation: whether the
  application run loop is running, the item the status bar hands out (or \<open>nil\<close>), and
  whether the bitmap representation can be allocated.
\<close>

record cocoa =
  isRunning :: bool
  statusItemWithLength :: "NSStatusItem option"
  NSBitmapImageRep_alloc_ok :: bool

subsection \<open>Native calls\<close>

text \<open>
  The calls a backend makes on objects it does not own alone, in the order it makes
  them: shell requests, releases of native resources, file removal, and the host's
  callbacks.
\<close>

datatype call =
    Shell_NotifyIconW NIM NOTIFYICONDATAW
  | DestroyIcon HICON
  | DestroyWindow HWND
  | g_object_ref GdkPixbuf
  | g_object_unref GdkPixbuf
  | g_object_unref_indicator
  | g_free_backend
  | g_warning string
  | unlink string
  | gtk_widget_destroy GtkWidget
  | gtk_widget_destroy_menu
  | click_callback TrayClickCallback pointer
  | menu_callback "GtkWidget list option" nat nat pointer
  | removeStatusItem NSStatusItem
  | release_statusItem
  | release_delegate
  | release_image NSImage

section \<open>Shell-notification-icon backend\<close>

text \<open>
  \<open>r = (r * a) / 255\<close>: the operands are promoted to \<open>int\<close>, the quotient is stored
  back into a \<open>guchar\<close>.
\<close>

definition premultiply :: "guchar \<Rightarrow> guchar \<Rightarrow> guchar" where
  "premultiply c a = word_of_int ((uint c * uint a) div 255)"

text \<open>One iteration of the inner loop: the four bytes appended to \<open>dest\<close>.\<close>

definition convert_pixel :: "GdkPixbuf \<Rightarrow> int \<Rightarrow> fault + guchar list" where
  "convert_pixel pb src =
     (case read_byte (pb_pixels pb) src of Inl e \<Rightarrow> Inl e | Inr r \<Rightarrow>
     (case read_byte (pb_pixels pb) (src + 1) of Inl e \<Rightarrow> Inl e | Inr g \<Rightarrow>
     (case read_byte (pb_pixels pb) (src + 2) of Inl e \<Rightarrow> Inl e | Inr b \<Rightarrow>
     (case (if pb_n_channels pb = 4 then read_byte (pb_pixels pb) (src + 3) else Inr 0xFF) of
        Inl e \<Rightarrow> Inl e
      | Inr a \<Rightarrow>
          (if a < 0xFF then Inr [premultiply b a, premultiply g a, premultiply r a, a]
           else Inr [b, g, r, a])))))"

text \<open>\<open>for (int x = 0; x < width; x++) { ...; src += channels; }\<close>\<close>

function copy_row :: "GdkPixbuf \<Rightarrow> int \<Rightarrow> int \<Rightarrow> guchar list \<Rightarrow> fault + guchar list" where
  "copy_row pb x src dest =
     (if x < pb_width pb then
        (case convert_pixel pb src of
           Inl e \<Rightarrow> Inl e
         | Inr px \<Rightarrow> copy_row pb (x + 1) (src + pb_n_channels pb) (dest @ px))
      else Inr dest)"
  by pat_completeness auto
termination
  by (relation "measure (\<lambda>(pb, x, src, dest). nat (pb_width pb - x))") auto

text \<open>\<open>for (int y = 0; y < height; y++) { src = pixels + y * stride; ... }\<close>\<close>

function copy_rows :: "GdkPixbuf \<Rightarrow> int \<Rightarrow> guchar list \<Rightarrow> fault + guchar list" where
  "copy_rows pb y dest =
     (if y < pb_height pb then
        (if y * pb_rowstride pb < - (2 ^ 31) \<or> 2 ^ 31 \<le> y * pb_rowstride pb
         then Inl SignedOverflow
         else
           (case copy_row pb 0 (y * pb_rowstride pb) dest of
              Inl e \<Rightarrow> Inl e
            | Inr dest' \<Rightarrow> copy_rows pb (y + 1) dest'))
      else Inr dest)"
  by pat_completeness auto
termination
  by (relation "measure (\<lambda>(pb, y, dest). nat (pb_height pb - y))") auto

declare copy_row.simps [simp del] copy_rows.simps [simp del]

text \<open>
  \<open>pixbuf_to_hicon\<close>: \<open>NULL\<close> for a null pixbuf and when either native call fails,
  otherwise the icon built from the converted bits.
\<close>

definition pixbuf_to_hicon :: "win32 \<Rightarrow> GdkPixbuf option \<Rightarrow> fault + HICON option" where
  "pixbuf_to_hicon env pixbuf =
     (case pixbuf of
        None \<Rightarrow> Inr None
      | Some pb \<Rightarrow>
          if CreateDIBSection_ok env (pb_width pb) (- pb_height pb) then
            (case copy_rows pb 0 [] of
               Inl e \<Rightarrow> Inl e
             | Inr bits \<Rightarrow>
                 if CreateIconIndirect_ok env (pb_width pb) (- pb_height pb) bits
                 then Inr (Some \<lparr>bV5Width = pb_width pb, bV5Height = - pb_height pb,
                                 bV5BitCount = 32, color_bits = bits\<rparr>)
                 else Inr None)
          else Inr None)"

text \<open>
  \<open>WM_TRAYICON = WM_APP + 1\<close>, \<open>TRAY_ID = 1\<close>, and the flags
  \<open>NIF_MESSAGE | NIF_ICON | NIF_TIP\<close>. \<open>szTip\<close> holds 128 wide characters.
\<close>

definition WM_TRAYICON :: nat where "WM_TRAYICON = 0x8000 + 1"
definition TRAY_ID :: nat where "TRAY_ID = 1"
definition NIF_MESSAGE_ICON_TIP :: nat where "NIF_MESSAGE_ICON_TIP = 1 + 2 + 4"
definition szTip_size :: nat where "szTip_size = 128"

text \<open>
  \<open>tray_windows_new\<close>: the zeroed structure, the hidden window (the backend is freed
  and \<open>NULL\<close> returned when it cannot be created), the descriptor, the initial icon and
  the tooltip. Nothing is submitted to the shell.
\<close>

definition tray_windows_new ::
  "win32 \<Rightarrow> GdkPixbuf option \<Rightarrow> string option \<Rightarrow> fault + (win_backend option \<times> call list)" where
  "tray_windows_new env icon tooltip =
     (case CreateWindowExW env of
        None \<Rightarrow> Inr (None, [g_free_backend])
      | Some h \<Rightarrow>
          (case (case icon of None \<Rightarrow> Inr None | Some i \<Rightarrow> pixbuf_to_hicon env (Some i)) of
             Inl e \<Rightarrow> Inl e
           | Inr hic \<Rightarrow>
               Inr (Some
                 \<lparr>win_nid =
                    \<lparr>nid_hWnd = Some h, nid_uID = TRAY_ID, nid_uFlags = NIF_MESSAGE_ICON_TIP,
                     nid_uCallbackMessage = WM_TRAYICON, nid_hIcon = hic,
                     nid_szTip =
                       (case tooltip of
                          None \<Rightarrow> replicate szTip_size 0
                        | Some t \<Rightarrow> MultiByteToWideChar env t szTip_size (replicate szTip_size 0))\<rparr>,
                  win_hwnd = Some h, win_hicon = hic, win_current_icon = icon,
                  win_visible = False,
                  win_activate_callback = None, win_activate_userdata = 0,
                  win_menu_callback = None, win_menu_userdata = 0,
                  win_embedded_callback = None, win_embedded_userdata = 0\<rparr>,
                 (case icon of None \<Rightarrow> [] | Some i \<Rightarrow> [g_object_ref i]))))"

text \<open>
  \<open>tray_windows_set_icon\<close>: the old native icon and the old source image are released
  first, then the new image is cached and converted, the result (possibly \<open>NULL\<close>) is
  stored in the handle and in the descriptor, and a modify request is sent if the icon
  is shown.
\<close>

definition tray_windows_set_icon ::
  "win32 \<Rightarrow> win_backend option \<Rightarrow> GdkPixbuf option \<Rightarrow> fault + (win_backend option \<times> call list)" where
  "tray_windows_set_icon env backend icon =
     (case backend of
        None \<Rightarrow> Inr (backend, [])
      | Some b \<Rightarrow>
          (case icon of
             None \<Rightarrow> Inr (backend, [])
           | Some i \<Rightarrow>
               (case pixbuf_to_hicon env (Some i) of
                  Inl e \<Rightarrow> Inl e
                | Inr hic \<Rightarrow>
                    (let b' = b\<lparr>win_current_icon := Some i, win_hicon := hic,
                                 win_nid := (win_nid b)\<lparr>nid_hIcon := hic\<rparr>\<rparr>
                     in Inr (Some b',
                          (case win_hicon b of None \<Rightarrow> [] | Some old \<Rightarrow> [DestroyIcon old]) @
                          (case win_current_icon b of None \<Rightarrow> [] | Some old \<Rightarrow> [g_object_unref old]) @
                          [g_object_ref i] @
                          (if win_visible b then [Shell_NotifyIconW NIM_MODIFY (win_nid b')]
                           else []))))))"

definition tray_windows_set_tooltip ::
  "win32 \<Rightarrow> win_backend option \<Rightarrow> string option \<Rightarrow> win_backend option \<times> call list" where
  "tray_windows_set_tooltip env backend tooltip =
     (case backend of
        None \<Rightarrow> (backend, [])
      | Some b \<Rightarrow>
          (case tooltip of
             None \<Rightarrow> (backend, [])
           | Some t \<Rightarrow>
               (let b' = b\<lparr>win_nid := (win_nid b)
                            \<lparr>nid_szTip := MultiByteToWideChar env t szTip_size
                                             (nid_szTip (win_nid b))\<rparr>\<rparr>
                in (Some b',
                    (if win_visible b then [Shell_NotifyIconW NIM_MODIFY (win_nid b')]
                     else [])))))"

text \<open>
  \<open>tray_windows_set_visible\<close>: an add request and the embedded callback when a hidden
  icon is shown, a delete request when a shown icon is hidden, nothing otherwise. The
  result of \<open>Shell_NotifyIconW\<close> is not looked at.
\<close>

definition tray_windows_set_visible ::
  "win_backend option \<Rightarrow> bool \<Rightarrow> win_backend option \<times> call list" where
  "tray_windows_set_visible backend visible =
     (case backend of
        None \<Rightarrow> (backend, [])
      | Some b \<Rightarrow>
          (if visible \<and> \<not> win_visible b then
             (Some (b\<lparr>win_visible := True\<rparr>),
              [Shell_NotifyIconW NIM_ADD (win_nid b)] @
              (case win_embedded_callback b of
                 None \<Rightarrow> []
               | Some cb \<Rightarrow> [click_callback cb (win_embedded_userdata b)]))
           else if \<not> visible \<and> win_visible b then
             (Some (b\<lparr>win_visible := False\<rparr>), [Shell_NotifyIconW NIM_DELETE (win_nid b)])
           else (backend, [])))"

definition tray_windows_is_embedded :: "win_backend option \<Rightarrow> bool" where
  "tray_windows_is_embedded backend =
     (case backend of None \<Rightarrow> False | Some b \<Rightarrow> win_visible b)"

definition tray_windows_set_activate_callback ::
  "win_backend option \<Rightarrow> TrayClickCallback option \<Rightarrow> pointer \<Rightarrow> win_backend option \<times> call list" where
  "tray_windows_set_activate_callback backend callback userdata =
     (case backend of
        None \<Rightarrow> (backend, [])
      | Some b \<Rightarrow>
          (Some (b\<lparr>win_activate_callback := callback, win_activate_userdata := userdata\<rparr>), []))"

definition tray_windows_set_menu_callback ::
  "win_backend option \<Rightarrow> TrayMenuCallback option \<Rightarrow> pointer \<Rightarrow> win_backend option \<times> call list" where
  "tray_windows_set_menu_callback backend callback userdata =
     (case backend of
        None \<Rightarrow> (backend, [])
      | Some b \<Rightarrow>
          (Some (b\<lparr>win_menu_callback := callback, win_menu_userdata := userdata\<rparr>), []))"

definition tray_windows_set_embedded_callback ::
  "win_backend option \<Rightarrow> TrayClickCallback option \<Rightarrow> pointer \<Rightarrow> win_backend option \<times> call list" where
  "tray_windows_set_embedded_callback backend callback userdata =
     (case backend of
        None \<Rightarrow> (backend, [])
      | Some b \<Rightarrow>
          (Some (b\<lparr>win_embedded_callback := callback, win_embedded_userdata := userdata\<rparr>), []))"

text \<open>\<open>tray_windows_destroy\<close> frees the handle: only the calls remain.\<close>

definition tray_windows_destroy :: "win_backend option \<Rightarrow> call list" where
  "tray_windows_destroy backend =
     (case backend of
        None \<Rightarrow> []
      | Some b \<Rightarrow>
          (if win_visible b then [Shell_NotifyIconW NIM_DELETE (win_nid b)] else []) @
          (case win_hicon b of None \<Rightarrow> [] | Some h \<Rightarrow> [DestroyIcon h]) @
          (case win_current_icon b of None \<Rightarrow> [] | Some i \<Rightarrow> [g_object_unref i]) @
          (case win_hwnd b of None \<Rightarrow> [] | Some w \<Rightarrow> [DestroyWindow w]) @
          [g_free_backend])"

section \<open>Desktop-indicator backend\<close>

text \<open>
  \<open>%d\<close> and \<open>%ld\<close> of \<open>g_strdup_printf\<close>, and the two path functions of the
  utility library on the paths \<open>save_pixbuf_to_temp\<close> builds (a directory, one
  separator, a file name).
\<close>

fun printf_u :: "nat \<Rightarrow> string" where
  "printf_u n =
     (if n < 10 then [''0123456789'' ! n]
      else printf_u (n div 10) @ [''0123456789'' ! (n mod 10)])"

declare printf_u.simps [simp del]

definition printf_d :: "int \<Rightarrow> string" where
  "printf_d i = (if i < 0 then CHR ''-'' # printf_u (nat (- i)) else printf_u (nat i))"

definition g_path_get_basename :: "string \<Rightarrow> string" where
  "g_path_get_basename path = rev (takeWhile (\<lambda>c. c \<noteq> CHR ''/'') (rev path))"

definition g_path_get_dirname :: "string \<Rightarrow> string" where
  "g_path_get_dirname path =
     (if CHR ''/'' \<notin> set path then ''.''
      else (let dir = rev (tl (dropWhile (\<lambda>c. c \<noteq> CHR ''/'') (rev path)))
            in if dir = [] then ''/'' else dir))"

text \<open>
  \<open>g_strndup(basename, strlen(basename) - 4)\<close>: the length is a \<open>size_t\<close>, so the
  subtraction wraps below four characters.
\<close>

definition name_without_ext :: "string \<Rightarrow> string" where
  "name_without_ext basename = take ((length basename + 2 ^ 64 - 4) mod 2 ^ 64) basename"

text \<open>
  \<open>save_pixbuf_to_temp\<close>: the file name, or \<open>NULL\<close> with a warning when the image
  cannot be saved.
\<close>

definition save_pixbuf_to_temp :: "posix \<Rightarrow> GdkPixbuf \<Rightarrow> string \<Rightarrow> string option \<times> call list" where
  "save_pixbuf_to_temp env pixbuf name =
     (let filename = ''/tmp/pchat-tray-'' @ name @ ''-'' @ printf_d (getpid env) @ ''.png''
      in if \<not> gdk_pixbuf_save_ok env pixbuf filename
         then (None, [g_warning ''Failed to save tray icon''])
         else (Some filename, []))"

text \<open>
  The native setters check their object and return when it is \<open>NULL\<close>;
  \<open>app_indicator_get_status\<close> then answers \<open>PASSIVE\<close>.
\<close>

definition app_indicator_new :: "string \<Rightarrow> string \<Rightarrow> AppIndicator" where
  "app_indicator_new ident icon_name =
     \<lparr>ai_id = ident, ai_icon_name = icon_name, ai_icon_desc = None,
      ai_icon_theme_path = None, ai_title = None,
      ai_status = APP_INDICATOR_STATUS_PASSIVE, ai_menu_attached = False\<rparr>"

definition app_indicator_get_status :: "AppIndicator option \<Rightarrow> AppIndicatorStatus" where
  "app_indicator_get_status ind =
     (case ind of None \<Rightarrow> APP_INDICATOR_STATUS_PASSIVE | Some i \<Rightarrow> ai_status i)"

text \<open>
  The block shared by \<open>tray_linux_new\<close> and \<open>tray_linux_set_icon\<close>: register the
  directory and the base name without its extension with the indicator.
\<close>

definition register_icon :: "string \<Rightarrow> string option \<Rightarrow> AppIndicator option \<Rightarrow> AppIndicator option" where
  "register_icon temp_icon_path desc ind =
     map_option
       (\<lambda>i. i\<lparr>ai_icon_theme_path := Some (g_path_get_dirname temp_icon_path),
               ai_icon_name := name_without_ext (g_path_get_basename temp_icon_path),
               ai_icon_desc := desc\<rparr>)
       ind"

text \<open>
  \<open>tray_linux_new\<close>: the indicator, the initial icon (if any), the empty menu, and
  status \<open>ACTIVE\<close>.
\<close>

definition tray_linux_new ::
  "posix \<Rightarrow> GdkPixbuf option \<Rightarrow> string option \<Rightarrow> linux_backend option \<times> call list" where
  "tray_linux_new env icon tooltip =
     (let ind0 = Some (app_indicator_new ''pchat-tray'' ''pchat'');
          (cur, name, path, ind1, calls) =
            (case icon of
               None \<Rightarrow> (None, None, None, ind0, [])
             | Some i \<Rightarrow>
                 (let (path, warn) = save_pixbuf_to_temp env i ''pchat-normal''
                  in (Some i, Some ''pchat-normal'', path,
                      (case path of None \<Rightarrow> ind0 | Some p \<Rightarrow> register_icon p tooltip ind0),
                      [g_object_ref i] @ warn)));
          ind2 = map_option (\<lambda>i. i\<lparr>ai_menu_attached := True\<rparr>) ind1;
          ind3 = map_option (\<lambda>i. i\<lparr>ai_status := APP_INDICATOR_STATUS_ACTIVE\<rparr>) ind2
      in (Some
            \<lparr>linux_indicator = ind3, linux_menu = Some [],
             linux_current_icon = cur, linux_icon_name = name, linux_temp_icon_path = path,
             linux_activate_callback = None, linux_activate_userdata = 0,
             linux_menu_callback = None, linux_menu_userdata = 0,
             linux_embedded_callback = None, linux_embedded_userdata = 0\<rparr>,
          calls))"

text \<open>
  \<open>tray_linux_set_icon\<close>: the old image, file and name are released first; then the
  new image is cached under a name made from the clock and saved; the indicator is
  told only when the file was written.
\<close>

definition tray_linux_set_icon ::
  "posix \<Rightarrow> linux_backend option \<Rightarrow> GdkPixbuf option \<Rightarrow> linux_backend option \<times> call list" where
  "tray_linux_set_icon env backend icon =
     (case backend of
        None \<Rightarrow> (backend, [])
      | Some b \<Rightarrow>
          (case icon of
             None \<Rightarrow> (backend, [])
           | Some i \<Rightarrow>
               (let name = ''pchat-'' @ printf_d (g_get_real_time env);
                    (path, warn) = save_pixbuf_to_temp env i name
                in (Some (b\<lparr>linux_current_icon := Some i, linux_icon_name := Some name,
                             linux_temp_icon_path := path,
                             linux_indicator :=
                               (case path of
                                  None \<Rightarrow> linux_indicator b
                                | Some p \<Rightarrow> register_icon p (Some ''PChat'') (linux_indicator b))\<rparr>),
                    (case linux_current_icon b of None \<Rightarrow> [] | Some old \<Rightarrow> [g_object_unref old]) @
                    (case linux_temp_icon_path b of None \<Rightarrow> [] | Some old \<Rightarrow> [unlink old]) @
                    [g_object_ref i] @ warn))))"

definition tray_linux_set_tooltip ::
  "linux_backend option \<Rightarrow> string option \<Rightarrow> linux_backend option \<times> call list" where
  "tray_linux_set_tooltip backend tooltip =
     (case backend of
        None \<Rightarrow> (backend, [])
      | Some b \<Rightarrow>
          (case tooltip of
             None \<Rightarrow> (backend, [])
           | Some t \<Rightarrow>
               (Some (b\<lparr>linux_indicator :=
                          map_option (\<lambda>i. i\<lparr>ai_title := Some t\<rparr>) (linux_indicator b)\<rparr>), [])))"

definition tray_linux_set_visible ::
  "linux_backend option \<Rightarrow> bool \<Rightarrow> linux_backend option \<times> call list" where
  "tray_linux_set_visible backend visible =
     (case backend of
        None \<Rightarrow> (backend, [])
      | Some b \<Rightarrow>
          (Some (b\<lparr>linux_indicator :=
                     map_option
                       (\<lambda>i. i\<lparr>ai_status := (if visible then APP_INDICATOR_STATUS_ACTIVE
                                               else APP_INDICATOR_STATUS_PASSIVE)\<rparr>)
                       (linux_indicator b)\<rparr>), []))"

definition tray_linux_is_embedded :: "linux_backend option \<Rightarrow> bool" where
  "tray_linux_is_embedded backend =
     (case backend of
        None \<Rightarrow> False
      | Some b \<Rightarrow> app_indicator_get_status (linux_indicator b) = APP_INDICATOR_STATUS_ACTIVE)"

definition tray_linux_set_activate_callback ::
  "linux_backend option \<Rightarrow> TrayClickCallback option \<Rightarrow> pointer \<Rightarrow> linux_backend option \<times> call list" where
  "tray_linux_set_activate_callback backend callback userdata =
     (case backend of
        None \<Rightarrow> (backend, [])
      | Some b \<Rightarrow>
          (Some (b\<lparr>linux_activate_callback := callback, linux_activate_userdata := userdata\<rparr>), []))"

text \<open>
  \<open>tray_linux_set_menu_callback\<close> stores the callback and, when it is not \<open>NULL\<close> and
  the menu exists, calls it at once on the menu with button 3 and time 0.
\<close>

definition tray_linux_set_menu_callback ::
  "linux_backend option \<Rightarrow> TrayMenuCallback option \<Rightarrow> pointer \<Rightarrow> linux_backend option \<times> call list" where
  "tray_linux_set_menu_callback backend callback userdata =
     (case backend of
        None \<Rightarrow> (backend, [])
      | Some b \<Rightarrow>
          (let b' = b\<lparr>linux_menu_callback := callback, linux_menu_userdata := userdata\<rparr>
           in (case callback of
                 None \<Rightarrow> (Some b', [])
               | Some cb \<Rightarrow>
                   (case linux_menu b' of
                      None \<Rightarrow> (Some b', [])
                    | Some menu \<Rightarrow>
                        (Some (b'\<lparr>linux_menu := Some (cb menu 3 0 userdata)\<rparr>),
                         [menu_callback (Some menu) 3 0 userdata])))))"

definition tray_linux_set_embedded_callback ::
  "linux_backend option \<Rightarrow> TrayClickCallback option \<Rightarrow> pointer \<Rightarrow> linux_backend option \<times> call list" where
  "tray_linux_set_embedded_callback backend callback userdata =
     (case backend of
        None \<Rightarrow> (backend, [])
      | Some b \<Rightarrow>
          (Some (b\<lparr>linux_embedded_callback := callback, linux_embedded_userdata := userdata\<rparr>), []))"

text \<open>
  The loop of \<open>tray_linux_rebuild_menu\<close> over the list returned by
  \<open>gtk_container_get_children\<close>: destroying a widget takes it out of its container.
\<close>

fun destroy_children :: "GtkWidget list \<Rightarrow> GtkMenu \<Rightarrow> GtkMenu \<times> call list" where
  "destroy_children [] menu = (menu, [])"
| "destroy_children (w # iter) menu =
     (let (menu', calls) = destroy_children iter (removeAll w menu)
      in (menu', gtk_widget_destroy w # calls))"

definition tray_linux_rebuild_menu :: "linux_backend option \<Rightarrow> linux_backend option \<times> call list" where
  "tray_linux_rebuild_menu backend =
     (case backend of
        None \<Rightarrow> (backend, [])
      | Some b \<Rightarrow>
          (case linux_menu b of
             None \<Rightarrow> (backend, [])
           | Some menu \<Rightarrow>
               (case linux_menu_callback b of
                  None \<Rightarrow> (backend, [])
                | Some cb \<Rightarrow>
                    (let (cleared, calls) = destroy_children menu menu
                     in (Some (b\<lparr>linux_menu := Some (cb cleared 3 0 (linux_menu_userdata b))\<rparr>),
                         calls @ [menu_callback (Some cleared) 3 0 (linux_menu_userdata b)])))))"

definition tray_linux_destroy :: "linux_backend option \<Rightarrow> call list" where
  "tray_linux_destroy backend =
     (case backend of
        None \<Rightarrow> []
      | Some b \<Rightarrow>
          (case linux_temp_icon_path b of None \<Rightarrow> [] | Some p \<Rightarrow> [unlink p]) @
          (case linux_current_icon b of None \<Rightarrow> [] | Some i \<Rightarrow> [g_object_unref i]) @
          (case linux_menu b of None \<Rightarrow> [] | Some m \<Rightarrow> [gtk_widget_destroy_menu]) @
          (case linux_indicator b of None \<Rightarrow> [] | Some i \<Rightarrow> [g_object_unref_indicator]) @
          [g_free_backend])"

section \<open>Status-bar-item backend\<close>

text \<open>
  \<open>pixbuf_to_nsimage\<close>: an RGBA copy of the pixels, no premultiplication, in an image
  resized to 20 by 20 points; \<open>nil\<close> for a null pixbuf and when the bitmap
  representation cannot be allocated.
\<close>

definition copy_pixel_rgba :: "GdkPixbuf \<Rightarrow> int \<Rightarrow> fault + guchar list" where
  "copy_pixel_rgba pb src =
     (case read_byte (pb_pixels pb) src of Inl e \<Rightarrow> Inl e | Inr r \<Rightarrow>
     (case read_byte (pb_pixels pb) (src + 1) of Inl e \<Rightarrow> Inl e | Inr g \<Rightarrow>
     (case read_byte (pb_pixels pb) (src + 2) of Inl e \<Rightarrow> Inl e | Inr b \<Rightarrow>
     (case (if pb_n_channels pb = 4 then read_byte (pb_pixels pb) (src + 3) else Inr 0xFF) of
        Inl e \<Rightarrow> Inl e
      | Inr a \<Rightarrow> Inr [r, g, b, a]))))"

function copy_row_rgba :: "GdkPixbuf \<Rightarrow> int \<Rightarrow> int \<Rightarrow> guchar list \<Rightarrow> fault + guchar list" where
  "copy_row_rgba pb x src dest =
     (if x < pb_width pb then
        (case copy_pixel_rgba pb src of
           Inl e \<Rightarrow> Inl e
         | Inr px \<Rightarrow> copy_row_rgba pb (x + 1) (src + pb_n_channels pb) (dest @ px))
      else Inr dest)"
  by pat_completeness auto
termination
  by (relation "measure (\<lambda>(pb, x, src, dest). nat (pb_width pb - x))") auto

function copy_rows_rgba :: "GdkPixbuf \<Rightarrow> int \<Rightarrow> guchar list \<Rightarrow> fault + guchar list" where
  "copy_rows_rgba pb y dest =
     (if y < pb_height pb then
        (if y * pb_rowstride pb < - (2 ^ 31) \<or> 2 ^ 31 \<le> y * pb_rowstride pb
         then Inl SignedOverflow
         else
           (case copy_row_rgba pb 0 (y * pb_rowstride pb) dest of
              Inl e \<Rightarrow> Inl e
            | Inr dest' \<Rightarrow> copy_rows_rgba pb (y + 1) dest'))
      else Inr dest)"
  by pat_completeness auto
termination
  by (relation "measure (\<lambda>(pb, y, dest). nat (pb_height pb - y))") auto

declare copy_row_rgba.simps [simp del] copy_rows_rgba.simps [simp del]

definition pixbuf_to_nsimage :: "cocoa \<Rightarrow> GdkPixbuf option \<Rightarrow> fault + NSImage option" where
  "pixbuf_to_nsimage env pixbuf =
     (case pixbuf of
        None \<Rightarrow> Inr None
      | Some pb \<Rightarrow>
          if \<not> NSBitmapImageRep_alloc_ok env then Inr None
          else
            (case copy_rows_rgba pb 0 [] of
               Inl e \<Rightarrow> Inl e
             | Inr bits \<Rightarrow>
                 Inr (Some \<lparr>img_pixelsWide = pb_width pb, img_pixelsHigh = pb_height pb,
                             img_bitmapData = bits, img_size = (20, 20),
                             img_isTemplate = False\<rparr>)))"





text \<open>
  \<open>tray_macos_new\<close> returns the zeroed handle at once and leaves the deferred data with
  the timer.
\<close>

definition tray_macos_new ::
  "GdkPixbuf option \<Rightarrow> string option \<Rightarrow> mac_backend option \<times> DeferredTrayData \<times> call list" where
  "tray_macos_new icon tooltip =
     (Some \<lparr>mac_statusItem = None, mac_currentImage = None, mac_delegate = None,
            mac_currentIcon = None, mac_tooltip = None, mac_visible = False,
            mac_activateCallback = None, mac_activateUserdata = 0,
            mac_menuCallback = None, mac_menuUserdata = 0,
            mac_embeddedCallback = None, mac_embeddedUserdata = 0\<rparr>,
      \<lparr>def_icon = icon, def_tooltip = tooltip, def_attempts = 0\<rparr>,
      (case icon of None \<Rightarrow> [] | Some i \<Rightarrow> [g_object_ref i]))"

text \<open>\<open>[backend->statusItem button]\<close>: \<open>nil\<close> when there is no status item.\<close>

definition statusItem_button :: "mac_backend \<Rightarrow> NSStatusBarButton option" where
  "statusItem_button b = (case mac_statusItem b of None \<Rightarrow> None | Some item \<Rightarrow> si_button item)"

definition set_button :: "(NSStatusBarButton \<Rightarrow> NSStatusBarButton) \<Rightarrow> mac_backend \<Rightarrow> mac_backend" where
  "set_button f b =
     b\<lparr>mac_statusItem :=
          map_option (\<lambda>item. item\<lparr>si_button := map_option f (si_button item)\<rparr>) (mac_statusItem b)\<rparr>"

definition tray_macos_set_icon ::
  "cocoa \<Rightarrow> mac_backend option \<Rightarrow> GdkPixbuf option \<Rightarrow> fault + (mac_backend option \<times> call list)" where
  "tray_macos_set_icon env backend icon =
     (case backend of
        None \<Rightarrow> Inr (backend, [])
      | Some b \<Rightarrow>
          (case icon of
             None \<Rightarrow> Inr (backend, [])
           | Some i \<Rightarrow>
               (case pixbuf_to_nsimage env (Some i) of
                  Inl e \<Rightarrow> Inl e
                | Inr converted \<Rightarrow>
                    (let b' = b\<lparr>mac_currentIcon := Some i, mac_currentImage := converted\<rparr>;
                         calls =
                           (case mac_currentIcon b of None \<Rightarrow> [] | Some old \<Rightarrow> [g_object_unref old]) @
                           (case mac_currentImage b of None \<Rightarrow> [] | Some old \<Rightarrow> [release_image old]) @
                           [g_object_ref i]
                     in (case converted of
                           None \<Rightarrow> Inr (Some b', calls)
                         | Some m \<Rightarrow>
                             (case statusItem_button b' of
                                None \<Rightarrow> Inr (Some b', calls)
                              | Some button \<Rightarrow>
                                  Inr (Some (set_button
                                               (\<lambda>bt. bt\<lparr>btn_image := Some (m\<lparr>img_isTemplate := True\<rparr>)\<rparr>)
                                               (b'\<lparr>mac_currentImage := Some (m\<lparr>img_isTemplate := True\<rparr>)\<rparr>)),
                                       calls)))))))"

definition tray_macos_set_tooltip ::
  "mac_backend option \<Rightarrow> string option \<Rightarrow> mac_backend option \<times> call list" where
  "tray_macos_set_tooltip backend tooltip =
     (case backend of
        None \<Rightarrow> (backend, [])
      | Some b \<Rightarrow>
          (case tooltip of
             None \<Rightarrow> (backend, [])
           | Some t \<Rightarrow>
               (Some (set_button (\<lambda>bt. bt\<lparr>btn_toolTip := Some t\<rparr>) (b\<lparr>mac_tooltip := Some t\<rparr>)), [])))"

text \<open>
  \<open>tray_macos_set_visible\<close> writes the flag of the handle whatever the state of the
  status item, then sends \<open>setVisible:\<close> to the item.
\<close>

definition tray_macos_set_visible ::
  "mac_backend option \<Rightarrow> bool \<Rightarrow> mac_backend option \<times> call list" where
  "tray_macos_set_visible backend visible =
     (case backend of
        None \<Rightarrow> (backend, [])
      | Some b \<Rightarrow>
          (Some (b\<lparr>mac_visible := visible,
                    mac_statusItem :=
                      map_option (\<lambda>item. item\<lparr>si_isVisible := visible\<rparr>) (mac_statusItem b)\<rparr>), []))"

definition tray_macos_is_embedded :: "mac_backend option \<Rightarrow> bool" where
  "tray_macos_is_embedded backend =
     (case backend of None \<Rightarrow> False | Some b \<Rightarrow> mac_visible b)"

definition tray_macos_set_activate_callback ::
  "mac_backend option \<Rightarrow> TrayClickCallback option \<Rightarrow> pointer \<Rightarrow> mac_backend option \<times> call list" where
  "tray_macos_set_activate_callback backend callback userdata =
     (case backend of
        None \<Rightarrow> (backend, [])
      | Some b \<Rightarrow>
          (Some (b\<lparr>mac_activateCallback := callback, mac_activateUserdata := userdata,
                    mac_delegate :=
                      map_option
                        (\<lambda>d. d\<lparr>dlg_activateCallback := callback, dlg_activateUserdata := userdata\<rparr>)
                        (mac_delegate b)\<rparr>), []))"

definition tray_macos_set_menu_callback ::
  "mac_backend option \<Rightarrow> TrayMenuCallback option \<Rightarrow> pointer \<Rightarrow> mac_backend option \<times> call list" where
  "tray_macos_set_menu_callback backend callback userdata =
     (case backend of
        None \<Rightarrow> (backend, [])
      | Some b \<Rightarrow>
          (Some (b\<lparr>mac_menuCallback := callback, mac_menuUserdata := userdata,
                    mac_delegate :=
                      map_option
                        (\<lambda>d. d\<lparr>dlg_menuCallback := callback, dlg_menuUserdata := userdata\<rparr>)
                        (mac_delegate b)\<rparr>), []))"

definition tray_macos_set_embedded_callback ::
  "mac_backend option \<Rightarrow> TrayClickCallback option \<Rightarrow> pointer \<Rightarrow> mac_backend option \<times> call list" where
  "tray_macos_set_embedded_callback backend callback userdata =
     (case backend of
        None \<Rightarrow> (backend, [])
      | Some b \<Rightarrow>
          (Some (b\<lparr>mac_embeddedCallback := callback, mac_embeddedUserdata := userdata\<rparr>),
           (case callback of None \<Rightarrow> [] | Some cb \<Rightarrow> [click_callback cb userdata])))"

definition tray_macos_destroy :: "mac_backend option \<Rightarrow> call list" where
  "tray_macos_destroy backend =
     (case backend of
        None \<Rightarrow> []
      | Some b \<Rightarrow>
          (case mac_statusItem b of
             None \<Rightarrow> []
           | Some item \<Rightarrow> [removeStatusItem item, release_statusItem]) @
          (case mac_delegate b of None \<Rightarrow> [] | Some d \<Rightarrow> [release_delegate]) @
          (case mac_currentImage b of None \<Rightarrow> [] | Some m \<Rightarrow> [release_image m]) @
          (case mac_currentIcon b of None \<Rightarrow> [] | Some i \<Rightarrow> [g_object_unref i]) @
          [g_free_backend])"


text \<open>The requests submitted to the shell, in order.\<close>

fun shell_requests :: "call list \<Rightarrow> (NIM \<times> NOTIFYICONDATAW) list" where
  "shell_requests [] = []"
| "shell_requests (Shell_NotifyIconW request nid # calls) = (request, nid) # shell_requests calls"
| "shell_requests (c # calls) = shell_requests calls"

section \<open>Dispatcher\<close>

text \<open>
  The dispatcher binds each \<open>backend_*\<close> macro at compile time to the function of one
  backend, or leaves it undefined (as on the platforms with a placeholder). A macro is
  an optional function: \<open>None\<close> when it is not defined. A wrapper that forwards the call
  returns \<open>Some\<close> of what the backend function returns; a wrapper whose body is compiled
  out, or whose handle is \<open>NULL\<close>, executes nothing and returns \<open>None\<close>.
\<close>

definition tray_backend_new ::
  "(GdkPixbuf option \<Rightarrow> string option \<Rightarrow> 'r) option \<Rightarrow> GdkPixbuf option \<Rightarrow> string option \<Rightarrow> 'r option" where
  "tray_backend_new backend_new icon tooltip =
     (case backend_new of None \<Rightarrow> None | Some f \<Rightarrow> Some (f icon tooltip))"

definition tray_backend_set_icon ::
  "('b option \<Rightarrow> GdkPixbuf option \<Rightarrow> 'r) option \<Rightarrow> 'b option \<Rightarrow> GdkPixbuf option \<Rightarrow> 'r option" where
  "tray_backend_set_icon backend_set_icon backend icon =
     (case backend_set_icon of
        None \<Rightarrow> None
      | Some f \<Rightarrow> (if backend \<noteq> None then Some (f backend icon) else None))"

definition tray_backend_set_tooltip ::
  "('b option \<Rightarrow> string option \<Rightarrow> 'r) option \<Rightarrow> 'b option \<Rightarrow> string option \<Rightarrow> 'r option" where
  "tray_backend_set_tooltip backend_set_tooltip backend tooltip =
     (case backend_set_tooltip of
        None \<Rightarrow> None
      | Some f \<Rightarrow> (if backend \<noteq> None then Some (f backend tooltip) else None))"

definition tray_backend_set_visible ::
  "('b option \<Rightarrow> bool \<Rightarrow> 'r) option \<Rightarrow> 'b option \<Rightarrow> bool \<Rightarrow> 'r option" where
  "tray_backend_set_visible backend_set_visible backend visible =
     (case backend_set_visible of
        None \<Rightarrow> None
      | Some f \<Rightarrow> (if backend \<noteq> None then Some (f backend visible) else None))"

definition tray_backend_is_embedded :: "('b option \<Rightarrow> bool) option \<Rightarrow> 'b option \<Rightarrow> bool" where
  "tray_backend_is_embedded backend_is_embedded backend =
     (case backend_is_embedded of
        None \<Rightarrow> False
      | Some f \<Rightarrow> (if backend \<noteq> None then f backend else False))"

definition tray_backend_set_activate_callback ::
  "('b option \<Rightarrow> TrayClickCallback option \<Rightarrow> pointer \<Rightarrow> 'r) option
     \<Rightarrow> 'b option \<Rightarrow> TrayClickCallback option \<Rightarrow> pointer \<Rightarrow> 'r option" where
  "tray_backend_set_activate_callback backend_set_activate_callback backend callback userdata =
     (case backend_set_activate_callback of
        None \<Rightarrow> None
      | Some f \<Rightarrow> (if backend \<noteq> None then Some (f backend callback userdata) else None))"

definition tray_backend_set_menu_callback ::
  "('b option \<Rightarrow> TrayMenuCallback option \<Rightarrow> pointer \<Rightarrow> 'r) option
     \<Rightarrow> 'b option \<Rightarrow> TrayMenuCallback option \<Rightarrow> pointer \<Rightarrow> 'r option" where
  "tray_backend_set_menu_callback backend_set_menu_callback backend callback userdata =
     (case backend_set_menu_callback of
        None \<Rightarrow> None
      | Some f \<Rightarrow> (if backend \<noteq> None then Some (f backend callback userdata) else None))"

definition tray_backend_set_embedded_callback ::
  "('b option \<Rightarrow> TrayClickCallback option \<Rightarrow> pointer \<Rightarrow> 'r) option
     \<Rightarrow> 'b option \<Rightarrow> TrayClickCallback option \<Rightarrow> pointer \<Rightarrow> 'r option" where
  "tray_backend_set_embedded_callback backend_set_embedded_callback backend callback userdata =
     (case backend_set_embedded_callback of
        None \<Rightarrow> None
      | Some f \<Rightarrow> (if backend \<noteq> None then Some (f backend callback userdata) else None))"

definition tray_backend_destroy :: "('b option \<Rightarrow> 'r) option \<Rightarrow> 'b option \<Rightarrow> 'r option" where
  "tray_backend_destroy backend_destroy backend =
     (case backend_destroy of
        None \<Rightarrow> None
      | Some f \<Rightarrow> (if backend \<noteq> None then Some (f backend) else None))"

text \<open>
  \<open>tray_backend_rebuild_menu\<close> is selected by platform, not by macro: compiled for
  Linux it calls \<open>tray_linux_rebuild_menu\<close> without testing the handle (the argument is
  then \<open>Some tray_linux_rebuild_menu\<close>), elsewhere its body is empty (\<open>None\<close>).
\<close>

definition tray_backend_rebuild_menu :: "('b option \<Rightarrow> 'r) option \<Rightarrow> 'b option \<Rightarrow> 'r option" where
  "tray_backend_rebuild_menu linux_rebuild_menu backend =
     (case linux_rebuild_menu of None \<Rightarrow> None | Some f \<Rightarrow> Some (f backend))"

text \<open>\<open>BACKEND_NAME\<close> for each compilation target.\<close>

datatype platform = LINUX | WIN32 | APPLE | OTHER

definition tray_backend_get_type :: "platform \<Rightarrow> string" where
  "tray_backend_get_type target =
     (case target of
        LINUX \<Rightarrow> ''AppIndicator''
      | WIN32 \<Rightarrow> ''Shell_NotifyIcon''
      | APPLE \<Rightarrow> ''macOS''
      | OTHER \<Rightarrow> ''GtkStatusIcon'')"

section \<open>Concrete inputs\<close>

text \<open>
  A 2 by 1 RGBA image (one half-transparent pixel, one opaque pixel), a 1 by 1 RGB
  image, platforms on which every native call succeeds, and platforms on which the
  conversion step fails.
\<close>

definition rgba_2x1 :: GdkPixbuf where
  "rgba_2x1 =
     \<lparr>pb_width = 2, pb_height = 1, pb_rowstride = 8, pb_n_channels = 4,
      pb_pixels = [200, 100, 50, 128, 10, 20, 30, 255]\<rparr>"

definition rgb_1x1 :: GdkPixbuf where
  "rgb_1x1 =
     \<lparr>pb_width = 1, pb_height = 1, pb_rowstride = 4, pb_n_channels = 3,
      pb_pixels = [7, 8, 9, 0]\<rparr>"

definition ascii_to_wide :: "string \<Rightarrow> nat \<Rightarrow> WCHAR list \<Rightarrow> WCHAR list" where
  "ascii_to_wide text n old =
     (if length text < n then map of_char text @ replicate (n - length text) 0 else old)"

definition good_win32 :: win32 where
  "good_win32 =
     \<lparr>CreateDIBSection_ok = (\<lambda>w h. True), CreateIconIndirect_ok = (\<lambda>w h bits. True),
      CreateWindowExW = Some 1, MultiByteToWideChar = ascii_to_wide\<rparr>"

definition no_icon_win32 :: win32 where
  "no_icon_win32 =
     \<lparr>CreateDIBSection_ok = (\<lambda>w h. True), CreateIconIndirect_ok = (\<lambda>w h bits. False),
      CreateWindowExW = Some 1, MultiByteToWideChar = ascii_to_wide\<rparr>"

definition good_posix :: posix where
  "good_posix =
     \<lparr>gdk_pixbuf_save_ok = (\<lambda>pixbuf filename. True), getpid = 4242, g_get_real_time = 1700000000\<rparr>"

definition readonly_tmp_posix :: posix where
  "readonly_tmp_posix =
     \<lparr>gdk_pixbuf_save_ok = (\<lambda>pixbuf filename. False), getpid = 4242, g_get_real_time = 1700000000\<rparr>"




definition two_items :: TrayMenuCallback where
  "two_items children button time userdata = children @ [101, 102]"

text \<open>
  Handles: a hidden and a shown shell-notification icon (the shown one displays the
  converted 2 by 1 image), an indicator with two menu items from an earlier build, and
  the status-bar handle and deferred data as \<open>tray_macos_new\<close> leaves them.
\<close>

definition hidden_tray :: win_backend where
  "hidden_tray =
     \<lparr>win_nid = \<lparr>nid_hWnd = Some 1, nid_uID = 1, nid_uFlags = 7, nid_uCallbackMessage = 32769,
                  nid_hIcon = None, nid_szTip = replicate 128 0\<rparr>,
      win_hwnd = Some 1, win_hicon = None, win_current_icon = None, win_visible = False,
      win_activate_callback = None, win_activate_userdata = 0,
      win_menu_callback = None, win_menu_userdata = 0,
      win_embedded_callback = Some 7, win_embedded_userdata = 9\<rparr>"

definition icon_2x1 :: HICON where
  "icon_2x1 =
     \<lparr>bV5Width = 2, bV5Height = - 1, bV5BitCount = 32,
      color_bits = [25, 50, 100, 128, 30, 20, 10, 255]\<rparr>"

definition shown_tray :: win_backend where
  "shown_tray =
     \<lparr>win_nid = \<lparr>nid_hWnd = Some 1, nid_uID = 1, nid_uFlags = 7, nid_uCallbackMessage = 32769,
                  nid_hIcon = Some icon_2x1, nid_szTip = replicate 128 0\<rparr>,
      win_hwnd = Some 1, win_hicon = Some icon_2x1, win_current_icon = Some rgba_2x1,
      win_visible = True,
      win_activate_callback = None, win_activate_userdata = 0,
      win_menu_callback = None, win_menu_userdata = 0,
      win_embedded_callback = None, win_embedded_userdata = 0\<rparr>"

definition indicator_tray :: linux_backend where
  "indicator_tray =
     \<lparr>linux_indicator =
        Some \<lparr>ai_id = ''pchat-tray'', ai_icon_name = ''pchat-tray-pchat-normal-4242'',
              ai_icon_desc = None, ai_icon_theme_path = Some ''/tmp'', ai_title = None,
              ai_status = APP_INDICATOR_STATUS_ACTIVE, ai_menu_attached = True\<rparr>,
      linux_menu = Some [11, 12],
      linux_current_icon = Some rgba_2x1, linux_icon_name = Some ''pchat-normal'',
      linux_temp_icon_path = Some ''/tmp/pchat-tray-pchat-normal-4242.png'',
      linux_activate_callback = None, linux_activate_userdata = 0,
      linux_menu_callback = Some two_items, linux_menu_userdata = 5,
      linux_embedded_callback = None, linux_embedded_userdata = 0\<rparr>"



text \<open>
  The hidden handle after the 2 by 1 image was staged, and after the tooltip \<open>Idle\<close>
  was staged as well; the indicator handle as creation left it, before any menu
  callback; the image object made from the 1 by 1 image.
\<close>

definition staged_icon_tray :: win_backend where
  "staged_icon_tray =
     hidden_tray\<lparr>win_current_icon := Some rgba_2x1, win_hicon := Some icon_2x1,
                  win_nid := (win_nid hidden_tray)\<lparr>nid_hIcon := Some icon_2x1\<rparr>\<rparr>"

definition staged_tray :: win_backend where
  "staged_tray =
     staged_icon_tray\<lparr>win_nid := (win_nid staged_icon_tray)
        \<lparr>nid_szTip := ascii_to_wide ''Idle'' 128 (replicate 128 0)\<rparr>\<rparr>"

definition fresh_indicator_tray :: linux_backend where
  "fresh_indicator_tray =
     indicator_tray\<lparr>linux_menu := Some [], linux_menu_callback := None,
                     linux_menu_userdata := 0\<rparr>"


section \<open>The bitmap converter writes premultiplied BGRA\<close>

lemma concat_map_length:
  assumes "\<And>i. i < n \<Longrightarrow> length (f i) = m"
  shows "length (concat (map f [0..<n])) = n * m"
  using assms by (induction n) auto

lemma concat_map_nth:
  assumes "\<And>i. i < n \<Longrightarrow> length (f i) = m" "i < n" "k < m"
  shows "concat (map f [0..<n]) ! (i * m + k) = f i ! k"
  using assms
proof (induction n)
  case 0 then show ?case by simp
next
  case (Suc n)
  have len: "length (concat (map f [0..<n])) = n * m"
    using Suc.prems(1) by (simp add: concat_map_length)
  show ?case
  proof (cases "i < n")
    case True
    then have "Suc i \<le> n" by simp
    then have "Suc i * m \<le> n * m" by (rule mult_le_mono1)
    then have "i * m + k < n * m" using Suc.prems(3) by simp
    then show ?thesis using Suc True len by (simp add: nth_append)
  next
    case False
    then have "i = n" using Suc.prems(2) by simp
    then show ?thesis using len by (simp add: nth_append)
  qed
qed

lemma premultiply_uint: "uint (premultiply c a) = uint c * uint a div 255"
proof -
  have c: "0 \<le> uint c" "uint c \<le> 255" and a: "0 \<le> uint a" "uint a \<le> 255"
    using uint_lt2p [of c] uint_lt2p [of a] by simp_all
  have "uint c * uint a \<le> 255 * 255"
    using c a by (intro mult_mono) simp_all
  then have "uint c * uint a div 255 < 256" by simp
  moreover have "0 \<le> uint c * uint a div 255"
    using c a by (simp add: pos_imp_zdiv_nonneg_iff)
  ultimately show ?thesis
    by (simp add: premultiply_def uint_word_of_int)
qed

lemma convert_pixel_length: "convert_pixel pb src = Inr px \<Longrightarrow> length px = 4"
  by (auto simp: convert_pixel_def split: sum.splits if_splits)

lemma copy_row_Inr:
  "copy_row pb x src dest = Inr d \<Longrightarrow>
     (\<forall>k < nat (pb_width pb - x). \<exists>px. convert_pixel pb (src + int k * pb_n_channels pb) = Inr px) \<and>
     d = dest @ concat (map (\<lambda>k. projr (convert_pixel pb (src + int k * pb_n_channels pb)))
                            [0..<nat (pb_width pb - x)])"
proof (induction pb x src dest rule: copy_row.induct)
  case (1 pb x src dest)
  show ?case
  proof (cases "x < pb_width pb")
    case False
    then show ?thesis using "1.prems" by (simp add: copy_row.simps)
  next
    case True
    then obtain px where px: "convert_pixel pb src = Inr px"
      and rest: "copy_row pb (x + 1) (src + pb_n_channels pb) (dest @ px) = Inr d"
      using "1.prems" by (subst (asm) copy_row.simps) (auto split: sum.splits)
    let ?n = "nat (pb_width pb - (x + 1))"
    let ?f = "\<lambda>k. convert_pixel pb (src + int k * pb_n_channels pb)"
    have n: "nat (pb_width pb - x) = Suc ?n" using True by simp
    have shift: "\<And>k. src + pb_n_channels pb + int k * pb_n_channels pb = src + int (Suc k) * pb_n_channels pb"
      by (simp add: algebra_simps)
    from "1.IH" [OF True px rest]
    have ih1: "\<forall>k < ?n. \<exists>p. ?f (Suc k) = Inr p"
      and ih2: "d = (dest @ px) @ concat (map (\<lambda>k. projr (?f (Suc k))) [0..<?n])"
      unfolding shift by blast+
    have all: "\<forall>k < Suc ?n. \<exists>p. ?f k = Inr p"
    proof (intro allI impI)
      fix k assume "k < Suc ?n"
      then show "\<exists>p. ?f k = Inr p"
        using px ih1 by (cases k) auto
    qed
    have "map (\<lambda>k. projr (?f k)) [0..<Suc ?n] = px # map (\<lambda>k. projr (?f (Suc k))) [0..<?n]"
      using px by (simp add: upt_conv_Cons map_Suc_upt [symmetric] del: upt_Suc)
    then have "d = dest @ concat (map (\<lambda>k. projr (?f k)) [0..<Suc ?n])"
      using ih2 by simp
    then show ?thesis using all unfolding n by blast
  qed
qed

lemma copy_rows_Inr:
  "copy_rows pb y dest = Inr d \<Longrightarrow>
     (\<forall>j < nat (pb_height pb - y). \<forall>k < nat (pb_width pb).
         \<exists>px. convert_pixel pb ((y + int j) * pb_rowstride pb + int k * pb_n_channels pb) = Inr px) \<and>
     d = dest @ concat (map (\<lambda>j. concat (map (\<lambda>k. projr (convert_pixel pb
                 ((y + int j) * pb_rowstride pb + int k * pb_n_channels pb))) [0..<nat (pb_width pb)]))
               [0..<nat (pb_height pb - y)])"
proof (induction pb y dest rule: copy_rows.induct)
  case (1 pb y dest)
  show ?case
  proof (cases "y < pb_height pb")
    case False
    then show ?thesis using "1.prems" by (simp add: copy_rows.simps)
  next
    case True
    have nov: "\<not> (y * pb_rowstride pb < - (2 ^ 31) \<or> 2 ^ 31 \<le> y * pb_rowstride pb)"
      using "1.prems" True by (subst (asm) copy_rows.simps) (auto split: if_splits)
    obtain d' where row: "copy_row pb 0 (y * pb_rowstride pb) dest = Inr d'"
      and rest: "copy_rows pb (y + 1) d' = Inr d"
      using "1.prems" True nov by (subst (asm) copy_rows.simps) (auto split: sum.splits)
    let ?n = "nat (pb_height pb - (y + 1))"
    let ?c = "\<lambda>j k. convert_pixel pb ((y + int j) * pb_rowstride pb + int k * pb_n_channels pb)"
    let ?row = "\<lambda>j. concat (map (\<lambda>k. projr (?c j k)) [0..<nat (pb_width pb)])"
    have d': "d' = dest @ ?row 0"
      using copy_row_Inr [OF row] by simp
    have conv0: "\<forall>k < nat (pb_width pb). \<exists>px. ?c 0 k = Inr px"
      using copy_row_Inr [OF row] by simp
    have n: "nat (pb_height pb - y) = Suc ?n" using True by simp
    have shift: "\<And>j. y + 1 + int j = y + int (Suc j)" by simp
    from "1.IH" [OF True nov row rest]
    have ih1: "\<forall>j < ?n. \<forall>k < nat (pb_width pb). \<exists>px. ?c (Suc j) k = Inr px"
      and ih2: "d = d' @ concat (map (\<lambda>j. ?row (Suc j)) [0..<?n])"
      unfolding shift by blast+
    have all: "\<forall>j < Suc ?n. \<forall>k < nat (pb_width pb). \<exists>px. ?c j k = Inr px"
    proof (intro allI impI)
      fix j k assume "j < Suc ?n" "k < nat (pb_width pb)"
      then show "\<exists>px. ?c j k = Inr px"
        using conv0 ih1 by (cases j) auto
    qed
    have "map ?row [0..<Suc ?n] = ?row 0 # map (\<lambda>j. ?row (Suc j)) [0..<?n]"
      by (simp add: upt_conv_Cons map_Suc_upt [symmetric] del: upt_Suc)
    then have "d = dest @ concat (map ?row [0..<Suc ?n])"
      using ih2 d' by simp
    then show ?thesis using all unfolding n by blast
  qed
qed


lemma convert_pixel_ok:
  assumes "0 \<le> src" "src + pb_n_channels pb \<le> int (length (pb_pixels pb))"
    "pb_n_channels pb = 3 \<or> pb_n_channels pb = 4"
  shows "\<exists>px. convert_pixel pb src = Inr px"
  using assms by (auto simp: convert_pixel_def read_byte_def)

lemma copy_row_ok:
  "0 \<le> src \<Longrightarrow> pb_n_channels pb = 3 \<or> pb_n_channels pb = 4 \<Longrightarrow>
   src + (pb_width pb - x) * pb_n_channels pb \<le> int (length (pb_pixels pb)) \<Longrightarrow>
   \<exists>d. copy_row pb x src dest = Inr d"
proof (induction pb x src dest rule: copy_row.induct)
  case (1 pb x src dest)
  show ?case
  proof (cases "x < pb_width pb")
    case False
    then show ?thesis by (simp add: copy_row.simps)
  next
    case True
    then have "1 \<le> pb_width pb - x" by simp
    then have "1 * pb_n_channels pb \<le> (pb_width pb - x) * pb_n_channels pb"
      using "1.prems"(2) by (intro mult_right_mono) auto
    then have fit: "src + pb_n_channels pb \<le> int (length (pb_pixels pb))"
      using "1.prems"(3) by simp
    obtain px where px: "convert_pixel pb src = Inr px"
      using convert_pixel_ok [OF "1.prems"(1) fit "1.prems"(2)] by blast
    have "src + pb_n_channels pb + (pb_width pb - (x + 1)) * pb_n_channels pb
            = src + (pb_width pb - x) * pb_n_channels pb"
      by (simp add: algebra_simps)
    then have "\<exists>d. copy_row pb (x + 1) (src + pb_n_channels pb) (dest @ px) = Inr d"
      using "1.IH" [OF True px] "1.prems" by auto
    then show ?thesis using True px by (subst copy_row.simps) simp
  qed
qed

lemma copy_rows_ok:
  "valid_source_image pb \<Longrightarrow> 0 \<le> y \<Longrightarrow> \<exists>d. copy_rows pb y dest = Inr d"
proof (induction pb y dest rule: copy_rows.induct)
  case (1 pb y dest)
  note v = "1.prems"(1) [unfolded valid_source_image_def]
  show ?case
  proof (cases "y < pb_height pb")
    case False
    then show ?thesis by (simp add: copy_rows.simps)
  next
    case True
    have st: "0 \<le> pb_rowstride pb"
    proof -
      have "0 \<le> pb_width pb * pb_n_channels pb" using v by auto
      then show ?thesis using v by linarith
    qed
    have lo: "0 \<le> y * pb_rowstride pb" using "1.prems"(2) st by simp
    have le1: "y * pb_rowstride pb \<le> (pb_height pb - 1) * pb_rowstride pb"
      using True st by (intro mult_right_mono) auto
    have le2: "(pb_height pb - 1) * pb_rowstride pb \<le> pb_height pb * pb_rowstride pb"
      using st by (intro mult_right_mono) auto
    have nov: "\<not> (y * pb_rowstride pb < - (2 ^ 31) \<or> 2 ^ 31 \<le> y * pb_rowstride pb)"
      using lo le1 le2 v by auto
    have "y * pb_rowstride pb + (pb_width pb - 0) * pb_n_channels pb \<le> int (length (pb_pixels pb))"
      using le1 v by auto
    then obtain d' where row: "copy_row pb 0 (y * pb_rowstride pb) dest = Inr d'"
      using copy_row_ok [OF lo, of pb 0 dest] v by blast
    have "\<exists>d. copy_rows pb (y + 1) d' = Inr d"
      using "1.IH" [OF True nov row "1.prems"(1)] "1.prems"(2) by simp
    then show ?thesis using True nov row by (subst copy_rows.simps) simp
  qed
qed

lemma pixbuf_to_hicon_accepts:
  assumes "valid_source_image pb"
  shows "\<exists>bits. copy_rows pb 0 [] = Inr bits \<and>
     pixbuf_to_hicon env (Some pb) =
       Inr (if CreateDIBSection_ok env (pb_width pb) (- pb_height pb) \<and>
               CreateIconIndirect_ok env (pb_width pb) (- pb_height pb) bits
            then Some \<lparr>bV5Width = pb_width pb, bV5Height = - pb_height pb,
                        bV5BitCount = 32, color_bits = bits\<rparr>
            else None)"
proof -
  obtain bits where "copy_rows pb 0 [] = Inr bits"
    using copy_rows_ok [OF assms, of 0 "[]"] by auto
  then show ?thesis by (auto simp: pixbuf_to_hicon_def)
qed

text \<open>
  Claim C1. For every Source Image that \<open>pixbuf_to_hicon\<close> accepts (it returns an
  icon), the output bitmap has the width of the image and, top-down, its height,
  \<open>4 * width * height\<close> bytes, and the pixel at column \<open>x\<close> of row \<open>y\<close> is written in
  the order blue, green, red, alpha: each colour byte is \<open>colour * alpha / 255\<close> when
  alpha is below 255 and the colour itself otherwise, the alpha byte is carried
  unchanged, and an image without an alpha channel has alpha 255 at every pixel, so
  that its colours are copied exactly.
\<close>

theorem pixbuf_to_hicon_premultiplied_bgra:
  assumes acc: "pixbuf_to_hicon env (Some pb) = Inr (Some icon)"
    and x: "0 \<le> x" "x < pb_width pb" and y: "0 \<le> y" "y < pb_height pb"
  defines "src \<equiv> y * pb_rowstride pb + x * pb_n_channels pb"
    and "dest \<equiv> nat (4 * (y * pb_width pb + x))"
  defines "r \<equiv> pb_pixels pb ! nat src"
    and "g \<equiv> pb_pixels pb ! nat (src + 1)"
    and "b \<equiv> pb_pixels pb ! nat (src + 2)"
    and "a \<equiv> (if pb_n_channels pb = 4 then pb_pixels pb ! nat (src + 3) else 0xFF)"
  shows "bV5Width icon = pb_width pb \<and> bV5Height icon = - pb_height pb \<and>
         length (color_bits icon) = nat (4 * pb_width pb * pb_height pb) \<and>
         0 \<le> src \<and>
         (if pb_n_channels pb = 4 then src + 3 else src + 2) < int (length (pb_pixels pb)) \<and>
         uint (color_bits icon ! dest) = (if a < 0xFF then uint b * uint a div 255 else uint b) \<and>
         uint (color_bits icon ! (dest + 1)) = (if a < 0xFF then uint g * uint a div 255 else uint g) \<and>
         uint (color_bits icon ! (dest + 2)) = (if a < 0xFF then uint r * uint a div 255 else uint r) \<and>
         color_bits icon ! (dest + 3) = a"
proof -
  let ?w = "nat (pb_width pb)" and ?h = "nat (pb_height pb)"
  let ?c = "\<lambda>j k. convert_pixel pb (int j * pb_rowstride pb + int k * pb_n_channels pb)"
  let ?row = "\<lambda>j. concat (map (\<lambda>k. projr (?c j k)) [0..<?w])"
  obtain bits where bits: "copy_rows pb 0 [] = Inr bits"
    and icon: "icon = \<lparr>bV5Width = pb_width pb, bV5Height = - pb_height pb,
                        bV5BitCount = 32, color_bits = bits\<rparr>"
    using acc by (auto simp: pixbuf_to_hicon_def split: if_splits sum.splits)
  from copy_rows_Inr [OF bits]
  have ok: "\<forall>j < ?h. \<forall>k < ?w. \<exists>px. ?c j k = Inr px"
    and eq: "bits = concat (map ?row [0..<?h])"
    by simp_all
  define yn xn where "yn = nat y" and "xn = nat x"
  have yn: "yn < ?h" "int yn = y" and xn: "xn < ?w" "int xn = x"
    using x y by (simp_all add: yn_def xn_def)
  have plen: "\<And>j k. j < ?h \<Longrightarrow> k < ?w \<Longrightarrow> length (projr (?c j k)) = 4"
    using ok convert_pixel_length by fastforce
  have rlen: "\<And>j. j < ?h \<Longrightarrow> length (?row j) = ?w * 4"
    by (rule concat_map_length) (simp add: plen)
  have len: "length bits = ?h * (?w * 4)"
    unfolding eq by (rule concat_map_length) (simp add: rlen)
  have len': "length bits = nat (4 * pb_width pb * pb_height pb)"
  proof -
    have "int (?h * (?w * 4)) = 4 * pb_width pb * pb_height pb" using x y by simp
    then show ?thesis using len by (metis nat_int)
  qed
  obtain px where px: "?c yn xn = Inr px"
    using ok yn(1) xn(1) by blast
  have px': "convert_pixel pb src = Inr px"
    using px by (simp add: src_def yn(2) xn(2))
  have at: "bits ! (dest + i) = px ! i" if "i < 4" for i
  proof -
    have d: "dest + i = yn * (?w * 4) + (xn * 4 + i)"
    proof -
      have "int (yn * (?w * 4) + xn * 4) = 4 * (y * pb_width pb + x)"
        using x by (simp add: algebra_simps yn(2) xn(2))
      then have "dest = yn * (?w * 4) + xn * 4"
        unfolding dest_def by (metis nat_int)
      then show ?thesis by simp
    qed
    have "xn * 4 + i < ?w * 4" using xn(1) that by linarith
    then have "bits ! (dest + i) = ?row yn ! (xn * 4 + i)"
      unfolding eq d using rlen yn(1) by (intro concat_map_nth)
    also have "\<dots> = projr (?c yn xn) ! i"
      using plen [OF yn(1)] xn(1) that by (intro concat_map_nth)
    also have "\<dots> = px ! i"
      by (simp add: px)
    finally show ?thesis .
  qed
  have px_eq: "px = (if a < 0xFF then [premultiply b a, premultiply g a, premultiply r a, a]
                     else [b, g, r, a])"
    using px' unfolding r_def g_def b_def a_def
    by (auto simp: convert_pixel_def read_byte_def split: sum.splits if_splits)
  have "bits ! dest = px ! 0" using at [of 0] by simp
  moreover have "bits ! (dest + 1) = px ! 1" using at [of 1] by simp
  moreover have "bits ! (dest + 2) = px ! 2" using at [of 2] by simp
  moreover have "bits ! (dest + 3) = px ! 3" using at [of 3] by simp
  moreover have "0 \<le> src"
    and "(if pb_n_channels pb = 4 then src + 3 else src + 2) < int (length (pb_pixels pb))"
    using px' by (auto simp: convert_pixel_def read_byte_def split: sum.splits if_splits)
  ultimately show ?thesis
    using px_eq len' by (simp add: icon premultiply_uint)
qed


theorem pixbuf_to_hicon_premultiplied_bgra_witness:
  "pixbuf_to_hicon good_win32 (Some rgba_2x1) =
     Inr (Some \<lparr>bV5Width = 2, bV5Height = - 1, bV5BitCount = 32,
                 color_bits = [25, 50, 100, 128, 30, 20, 10, 255]\<rparr>) \<and>
   uint ([25, 50, 100, 128, 30, 20, 10, 255 :: guchar] ! 0) = uint (50 :: guchar) * uint (128 :: guchar) div 255 \<and>
   uint ([25, 50, 100, 128, 30, 20, 10, 255 :: guchar] ! 6) = uint (10 :: guchar) \<and>
   [25, 50, 100, 128, 30, 20, 10, 255 :: guchar] ! 3 = 128"
proof -
  let ?icon = "\<lparr>bV5Width = 2, bV5Height = - 1, bV5BitCount = 32,
                 color_bits = [25, 50, 100, 128, 30, 20, 10, 255 :: guchar]\<rparr>"
  have acc: "pixbuf_to_hicon good_win32 (Some rgba_2x1) = Inr (Some ?icon)"
    by (simp add: pixbuf_to_hicon_def good_win32_def rgba_2x1_def copy_rows.simps
          copy_row.simps convert_pixel_def read_byte_def premultiply_def)
  have x0: "(0::int) \<le> 0" "(0::int) < pb_width rgba_2x1"
    and x1: "(0::int) \<le> 1" "(1::int) < pb_width rgba_2x1"
    and y0: "(0::int) \<le> 0" "(0::int) < pb_height rgba_2x1"
    by (simp_all add: rgba_2x1_def)
  from pixbuf_to_hicon_premultiplied_bgra [OF acc x0 y0]
       pixbuf_to_hicon_premultiplied_bgra [OF acc x1 y0]
  show ?thesis using acc by (simp add: rgba_2x1_def)
qed

section \<open>The concrete handles are reachable\<close>

lemma indicator_tray_from_new:
  "fst (tray_linux_new good_posix (Some rgba_2x1) None) =
     Some (indicator_tray\<lparr>linux_menu := Some [], linux_menu_callback := None,
                           linux_menu_userdata := 0\<rparr>)"
  by (simp add: tray_linux_new_def good_posix_def indicator_tray_def save_pixbuf_to_temp_def
        printf_d_def printf_u.simps register_icon_def g_path_get_dirname_def
        g_path_get_basename_def name_without_ext_def app_indicator_new_def)

lemma hidden_tray_from_new:
  "tray_windows_new good_win32 None None =
     Inr (Some (hidden_tray\<lparr>win_embedded_callback := None, win_embedded_userdata := 0\<rparr>), [])"
  by (simp add: tray_windows_new_def good_win32_def hidden_tray_def TRAY_ID_def
        WM_TRAYICON_def NIF_MESSAGE_ICON_TIP_def szTip_size_def)

lemma icon_2x1_from_converter: "pixbuf_to_hicon good_win32 (Some rgba_2x1) = Inr (Some icon_2x1)"
  by (simp add: pixbuf_to_hicon_def good_win32_def rgba_2x1_def copy_rows.simps icon_2x1_def
        copy_row.simps convert_pixel_def read_byte_def premultiply_def)


section \<open>Shell requests of the shell-notification-icon backend\<close>

lemma shell_requests_append: "shell_requests (xs @ ys) = shell_requests xs @ shell_requests ys"
  by (induction xs rule: shell_requests.induct) simp_all

text \<open>
  Claim C5. On the shell-notification-icon backend, \<open>set_icon\<close> and \<open>set_tooltip\<close> (with
  a handle and an image or text that are not null) submit a modify request exactly when
  the icon is shown, and no other request: on every handle each of them returns the
  handle with the converted icon, or the converted text, stored in the descriptor, and
  its shell requests are one modify request carrying that descriptor when the icon is
  shown and none when it is hidden. \<open>set_visible(handle, true)\<close> on a hidden icon
  submits exactly one add request, carrying the descriptor as it stands, and no modify
  request. So an icon and a tooltip set while hidden are only staged, and the show
  that follows submits one add request with both and nothing else.
\<close>

theorem windows_modify_iff_shown:
  assumes conv: "pixbuf_to_hicon env (Some icon) = Inr hic"
  shows "tray_windows_set_icon env (Some b) (Some icon) =
           Inr (Some (b\<lparr>win_current_icon := Some icon, win_hicon := hic,
                         win_nid := (win_nid b)\<lparr>nid_hIcon := hic\<rparr>\<rparr>),
                (case win_hicon b of None \<Rightarrow> [] | Some old \<Rightarrow> [DestroyIcon old]) @
                (case win_current_icon b of None \<Rightarrow> [] | Some old \<Rightarrow> [g_object_unref old]) @
                [g_object_ref icon] @
                (if win_visible b
                 then [Shell_NotifyIconW NIM_MODIFY ((win_nid b)\<lparr>nid_hIcon := hic\<rparr>)]
                 else [])) \<and>
         shell_requests (snd (projr (tray_windows_set_icon env (Some b) (Some icon)))) =
           (if win_visible b then [(NIM_MODIFY, (win_nid b)\<lparr>nid_hIcon := hic\<rparr>)] else []) \<and>
         tray_windows_set_tooltip env (Some t) (Some tip) =
           (Some (t\<lparr>win_nid := (win_nid t)
                     \<lparr>nid_szTip := MultiByteToWideChar env tip szTip_size (nid_szTip (win_nid t))\<rparr>\<rparr>),
            (if win_visible t
             then [Shell_NotifyIconW NIM_MODIFY
                     ((win_nid t)\<lparr>nid_szTip :=
                         MultiByteToWideChar env tip szTip_size (nid_szTip (win_nid t))\<rparr>)]
             else [])) \<and>
         shell_requests (snd (tray_windows_set_tooltip env (Some t) (Some tip))) =
           (if win_visible t
            then [(NIM_MODIFY,
                   (win_nid t)\<lparr>nid_szTip :=
                       MultiByteToWideChar env tip szTip_size (nid_szTip (win_nid t))\<rparr>)]
            else []) \<and>
         tray_windows_set_visible (Some v) True =
           (if win_visible v then (Some v, [])
            else (Some (v\<lparr>win_visible := True\<rparr>),
                  Shell_NotifyIconW NIM_ADD (win_nid v) #
                  (case win_embedded_callback v of
                     None \<Rightarrow> []
                   | Some cb \<Rightarrow> [click_callback cb (win_embedded_userdata v)]))) \<and>
         shell_requests (snd (tray_windows_set_visible (Some v) True)) =
           (if win_visible v then [] else [(NIM_ADD, win_nid v)]) \<and>
         shell_requests
           (snd (tray_windows_set_visible
                   (fst (tray_windows_set_tooltip env
                           (fst (projr (tray_windows_set_icon env (Some b) (Some icon))))
                           (Some tip)))
                   True)) =
           (if win_visible b then []
            else [(NIM_ADD,
                   (win_nid b)\<lparr>nid_hIcon := hic,
                              nid_szTip :=
                                MultiByteToWideChar env tip szTip_size (nid_szTip (win_nid b))\<rparr>)])"
proof -
  let ?b1 = "b\<lparr>win_current_icon := Some icon, win_hicon := hic,
                 win_nid := (win_nid b)\<lparr>nid_hIcon := hic\<rparr>\<rparr>"
  have si: "tray_windows_set_icon env (Some b) (Some icon) =
           Inr (Some ?b1,
                (case win_hicon b of None \<Rightarrow> [] | Some old \<Rightarrow> [DestroyIcon old]) @
                (case win_current_icon b of None \<Rightarrow> [] | Some old \<Rightarrow> [g_object_unref old]) @
                [g_object_ref icon] @
                (if win_visible b
                 then [Shell_NotifyIconW NIM_MODIFY ((win_nid b)\<lparr>nid_hIcon := hic\<rparr>)]
                 else []))"
    using conv by (simp add: tray_windows_set_icon_def Let_def)
  have si_req: "shell_requests (snd (projr (tray_windows_set_icon env (Some b) (Some icon)))) =
           (if win_visible b then [(NIM_MODIFY, (win_nid b)\<lparr>nid_hIcon := hic\<rparr>)] else [])"
    unfolding si by (simp add: shell_requests_append split: option.splits)
  have st: "tray_windows_set_tooltip env (Some t) (Some tip) =
           (Some (t\<lparr>win_nid := (win_nid t)
                     \<lparr>nid_szTip := MultiByteToWideChar env tip szTip_size (nid_szTip (win_nid t))\<rparr>\<rparr>),
            (if win_visible t
             then [Shell_NotifyIconW NIM_MODIFY
                     ((win_nid t)\<lparr>nid_szTip :=
                         MultiByteToWideChar env tip szTip_size (nid_szTip (win_nid t))\<rparr>)]
             else []))" for t
    by (simp add: tray_windows_set_tooltip_def Let_def)
  have st_req: "shell_requests (snd (tray_windows_set_tooltip env (Some t) (Some tip))) =
           (if win_visible t
            then [(NIM_MODIFY,
                   (win_nid t)\<lparr>nid_szTip :=
                       MultiByteToWideChar env tip szTip_size (nid_szTip (win_nid t))\<rparr>)]
            else [])"
    unfolding st by simp
  have sv: "tray_windows_set_visible (Some v) True =
           (if win_visible v then (Some v, [])
            else (Some (v\<lparr>win_visible := True\<rparr>),
                  Shell_NotifyIconW NIM_ADD (win_nid v) #
                  (case win_embedded_callback v of
                     None \<Rightarrow> []
                   | Some cb \<Rightarrow> [click_callback cb (win_embedded_userdata v)])))" for v
    by (simp add: tray_windows_set_visible_def)
  have sv_req: "shell_requests (snd (tray_windows_set_visible (Some v) True)) =
           (if win_visible v then [] else [(NIM_ADD, win_nid v)])" for v
    unfolding sv by (simp split: option.splits)
  have seq: "shell_requests
           (snd (tray_windows_set_visible
                   (fst (tray_windows_set_tooltip env
                           (fst (projr (tray_windows_set_icon env (Some b) (Some icon))))
                           (Some tip)))
                   True)) =
           (if win_visible b then []
            else [(NIM_ADD,
                   (win_nid b)\<lparr>nid_hIcon := hic,
                              nid_szTip :=
                                MultiByteToWideChar env tip szTip_size (nid_szTip (win_nid b))\<rparr>)])"
    unfolding si by (simp add: st sv_req)
  show ?thesis
    using si si_req st [of t] st_req sv [of v] sv_req [of v] seq by blast
qed

theorem windows_modify_iff_shown_witness:
  "pixbuf_to_hicon good_win32 (Some rgba_2x1) = Inr (Some icon_2x1) \<and>
   win_visible hidden_tray = False \<and> win_visible shown_tray = True \<and>
   tray_windows_set_icon good_win32 (Some hidden_tray) (Some rgba_2x1) =
     Inr (Some staged_icon_tray, [g_object_ref rgba_2x1]) \<and>
   tray_windows_set_icon good_win32 (Some shown_tray) (Some rgba_2x1) =
     Inr (Some shown_tray,
          [DestroyIcon icon_2x1, g_object_unref rgba_2x1, g_object_ref rgba_2x1,
           Shell_NotifyIconW NIM_MODIFY (win_nid shown_tray)]) \<and>
   tray_windows_set_tooltip good_win32 (Some staged_icon_tray) (Some ''Idle'') =
     (Some staged_tray, []) \<and>
   shell_requests (snd (tray_windows_set_tooltip good_win32 (Some shown_tray) (Some ''Idle''))) =
     [(NIM_MODIFY, (win_nid shown_tray)\<lparr>nid_szTip := ascii_to_wide ''Idle'' 128 (replicate 128 0)\<rparr>)] \<and>
   tray_windows_set_visible (Some staged_tray) True =
     (Some (staged_tray\<lparr>win_visible := True\<rparr>),
      [Shell_NotifyIconW NIM_ADD (win_nid staged_tray), click_callback 7 9]) \<and>
   shell_requests (snd (tray_windows_set_visible (Some shown_tray) True)) = [] \<and>
   shell_requests
     (snd (tray_windows_set_visible
             (fst (tray_windows_set_tooltip good_win32
                     (fst (projr (tray_windows_set_icon good_win32 (Some hidden_tray) (Some rgba_2x1))))
                     (Some ''Idle'')))
             True)) =
     [(NIM_ADD, win_nid staged_tray)] \<and>
   nid_hIcon (win_nid staged_tray) = Some icon_2x1 \<and>
   nid_szTip (win_nid staged_tray) = ascii_to_wide ''Idle'' 128 (replicate 128 0)"
proof -
  note hidden = windows_modify_iff_shown [OF icon_2x1_from_converter,
      of hidden_tray staged_icon_tray "''Idle''" staged_tray]
  note shown = windows_modify_iff_shown [OF icon_2x1_from_converter,
      of shown_tray shown_tray "''Idle''" shown_tray]
  have vis: "win_visible hidden_tray = False" "win_visible shown_tray = True"
    "win_visible staged_icon_tray = False" "win_visible staged_tray = False"
    by (simp_all add: hidden_tray_def shown_tray_def staged_icon_tray_def staged_tray_def)
  have st1: "hidden_tray\<lparr>win_current_icon := Some rgba_2x1, win_hicon := Some icon_2x1,
                win_nid := (win_nid hidden_tray)\<lparr>nid_hIcon := Some icon_2x1\<rparr>\<rparr> = staged_icon_tray"
    by (simp add: staged_icon_tray_def)
  have st2: "staged_icon_tray\<lparr>win_nid := (win_nid staged_icon_tray)
        \<lparr>nid_szTip := MultiByteToWideChar good_win32 ''Idle'' szTip_size
              (nid_szTip (win_nid staged_icon_tray))\<rparr>\<rparr> = staged_tray"
    by (simp add: staged_tray_def staged_icon_tray_def hidden_tray_def good_win32_def
          szTip_size_def)
  have st3: "shown_tray\<lparr>win_current_icon := Some rgba_2x1, win_hicon := Some icon_2x1,
                win_nid := (win_nid shown_tray)\<lparr>nid_hIcon := Some icon_2x1\<rparr>\<rparr> = shown_tray"
    "(win_nid shown_tray)\<lparr>nid_hIcon := Some icon_2x1\<rparr> = win_nid shown_tray"
    "win_hicon shown_tray = Some icon_2x1" "win_current_icon shown_tray = Some rgba_2x1"
    "win_hicon hidden_tray = None" "win_current_icon hidden_tray = None"
    "win_embedded_callback staged_tray = Some 7" "win_embedded_userdata staged_tray = 9"
    by (simp_all add: shown_tray_def hidden_tray_def staged_tray_def staged_icon_tray_def)
  have tip: "MultiByteToWideChar good_win32 ''Idle'' szTip_size (nid_szTip (win_nid shown_tray))
               = ascii_to_wide ''Idle'' 128 (replicate 128 0)"
    "(win_nid hidden_tray)\<lparr>nid_hIcon := Some icon_2x1,
        nid_szTip := MultiByteToWideChar good_win32 ''Idle'' szTip_size
                       (nid_szTip (win_nid hidden_tray))\<rparr> = win_nid staged_tray"
    "nid_hIcon (win_nid staged_tray) = Some icon_2x1"
    "nid_szTip (win_nid staged_tray) = ascii_to_wide ''Idle'' 128 (replicate 128 0)"
    by (simp_all add: good_win32_def szTip_size_def shown_tray_def hidden_tray_def
          staged_tray_def staged_icon_tray_def)
  from hidden shown show ?thesis
    by (simp add: icon_2x1_from_converter vis st1 st2 st3 tip)
qed

text \<open>
  Claim C6. On the shell-notification-icon backend, \<open>set_visible\<close> with the state the
  icon is already in changes nothing and calls nothing. Two consecutive
  \<open>set_visible(handle, true)\<close> calls on a hidden icon submit exactly one add request and
  call the registered embedded callback exactly once, both in the first call; the
  second call returns the handle as the first left it and makes no call.
\<close>

theorem set_visible_twice:
  assumes first: "tray_windows_set_visible (Some b) True = (h1, calls1)"
    and second: "tray_windows_set_visible h1 True = (h2, calls2)"
  shows "tray_windows_set_visible (Some b) (win_visible b) = (Some b, []) \<and>
         h2 = h1 \<and> calls2 = [] \<and>
         calls1 =
           (if win_visible b then []
            else Shell_NotifyIconW NIM_ADD (win_nid b) #
                 (case win_embedded_callback b of
                    None \<Rightarrow> []
                  | Some cb \<Rightarrow> [click_callback cb (win_embedded_userdata b)]))"
  using first second
  by (auto simp: tray_windows_set_visible_def split: if_splits option.splits)

theorem set_visible_twice_witness:
  "tray_windows_set_visible (Some hidden_tray) True =
     (Some (hidden_tray\<lparr>win_visible := True\<rparr>),
      [Shell_NotifyIconW NIM_ADD (win_nid hidden_tray), click_callback 7 9]) \<and>
   tray_windows_set_visible (Some (hidden_tray\<lparr>win_visible := True\<rparr>)) True =
     (Some (hidden_tray\<lparr>win_visible := True\<rparr>), []) \<and>
   tray_windows_set_visible (Some hidden_tray) False = (Some hidden_tray, [])"
proof -
  have first: "tray_windows_set_visible (Some hidden_tray) True =
     (Some (hidden_tray\<lparr>win_visible := True\<rparr>),
      [Shell_NotifyIconW NIM_ADD (win_nid hidden_tray), click_callback 7 9])"
    by (simp add: tray_windows_set_visible_def hidden_tray_def)
  have second: "tray_windows_set_visible (Some (hidden_tray\<lparr>win_visible := True\<rparr>)) True =
     (Some (hidden_tray\<lparr>win_visible := True\<rparr>), [])"
    by (simp add: tray_windows_set_visible_def)
  have hid: "win_visible hidden_tray = False" by (simp add: hidden_tray_def)
  from set_visible_twice [OF first second] hid
  show ?thesis using first second by simp
qed

section \<open>A failed conversion in \<open>set_icon\<close>\<close>

text \<open>
  Claim C3, as amended. When the conversion step of \<open>set_icon\<close> fails (the raster file
  cannot be written on the desktop-indicator backend, the native icon construction
  returns null on the shell-notification-icon backend), the failure is not propagated
  and the call returns normally, but the previous icon is not kept: the previous
  source image and native resource have been released (the temp file unlinked, the
  native icon destroyed), the cached source image is the new image, and the native icon
  resource of the handle is null. On the desktop-indicator backend the indicator keeps
  the icon path and name registered before; on the shell-notification-icon backend the
  descriptor's icon becomes null and, when the icon is shown, a modify request
  carrying the null icon is submitted.
\<close>

theorem set_icon_conversion_failure:
  assumes save: "\<not> gdk_pixbuf_save_ok env icon
             (''/tmp/pchat-tray-'' @ (''pchat-'' @ printf_d (g_get_real_time env)) @ ''-'' @
              printf_d (getpid env) @ ''.png'')"
    and conv: "pixbuf_to_hicon wenv (Some icon) = Inr None"
  shows "tray_linux_set_icon env (Some b) (Some icon) =
           (Some (b\<lparr>linux_current_icon := Some icon,
                     linux_icon_name := Some (''pchat-'' @ printf_d (g_get_real_time env)),
                     linux_temp_icon_path := None\<rparr>),
            (case linux_current_icon b of None \<Rightarrow> [] | Some old \<Rightarrow> [g_object_unref old]) @
            (case linux_temp_icon_path b of None \<Rightarrow> [] | Some old \<Rightarrow> [unlink old]) @
            [g_object_ref icon, g_warning ''Failed to save tray icon'']) \<and>
         tray_windows_set_icon wenv (Some wb) (Some icon) =
           Inr (Some (wb\<lparr>win_current_icon := Some icon, win_hicon := None,
                          win_nid := (win_nid wb)\<lparr>nid_hIcon := None\<rparr>\<rparr>),
                (case win_hicon wb of None \<Rightarrow> [] | Some old \<Rightarrow> [DestroyIcon old]) @
                (case win_current_icon wb of None \<Rightarrow> [] | Some old \<Rightarrow> [g_object_unref old]) @
                [g_object_ref icon] @
                (if win_visible wb
                 then [Shell_NotifyIconW NIM_MODIFY ((win_nid wb)\<lparr>nid_hIcon := None\<rparr>)]
                 else []))"
  using save conv
  by (simp add: tray_linux_set_icon_def save_pixbuf_to_temp_def tray_windows_set_icon_def Let_def)

theorem set_icon_conversion_failure_witness:
  "\<not> gdk_pixbuf_save_ok readonly_tmp_posix rgb_1x1
        ''/tmp/pchat-tray-pchat-1700000000-4242.png'' \<and>
   pixbuf_to_hicon no_icon_win32 (Some rgb_1x1) = Inr None \<and>
   tray_linux_set_icon readonly_tmp_posix (Some indicator_tray) (Some rgb_1x1) =
     (Some (indicator_tray\<lparr>linux_current_icon := Some rgb_1x1,
                           linux_icon_name := Some ''pchat-1700000000'',
                           linux_temp_icon_path := None\<rparr>),
      [g_object_unref rgba_2x1, unlink ''/tmp/pchat-tray-pchat-normal-4242.png'',
       g_object_ref rgb_1x1, g_warning ''Failed to save tray icon'']) \<and>
   tray_windows_set_icon no_icon_win32 (Some shown_tray) (Some rgb_1x1) =
     Inr (Some (shown_tray\<lparr>win_current_icon := Some rgb_1x1, win_hicon := None,
                          win_nid := (win_nid shown_tray)\<lparr>nid_hIcon := None\<rparr>\<rparr>),
          [DestroyIcon icon_2x1, g_object_unref rgba_2x1, g_object_ref rgb_1x1,
           Shell_NotifyIconW NIM_MODIFY ((win_nid shown_tray)\<lparr>nid_hIcon := None\<rparr>)])"
proof -
  have t: "printf_d (g_get_real_time readonly_tmp_posix) = ''1700000000''"
    and p: "printf_d (getpid readonly_tmp_posix) = ''4242''"
    by (simp_all add: readonly_tmp_posix_def printf_d_def printf_u.simps)
  have save: "\<not> gdk_pixbuf_save_ok readonly_tmp_posix rgb_1x1
             (''/tmp/pchat-tray-'' @ (''pchat-'' @ printf_d (g_get_real_time readonly_tmp_posix)) @
              ''-'' @ printf_d (getpid readonly_tmp_posix) @ ''.png'')"
    by (simp add: readonly_tmp_posix_def)
  have conv: "pixbuf_to_hicon no_icon_win32 (Some rgb_1x1) = Inr None"
    by (simp add: pixbuf_to_hicon_def no_icon_win32_def rgb_1x1_def copy_rows.simps
          copy_row.simps convert_pixel_def read_byte_def)
  from set_icon_conversion_failure [OF save conv, of indicator_tray shown_tray]
  show ?thesis using save conv
    by (simp add: t p indicator_tray_def shown_tray_def)
qed

text \<open>
  Claim C3 as stated fails on both backends. The indicator displays the 2 by 1 image and
  the file of the 1 by 1 image cannot be written: the cached image is the new image and
  the file of the displayed icon has been unlinked. The shell icon is shown with the
  icon of the 2 by 1 image and the native icon of the 1 by 1 image cannot be built: the
  displayed icon is destroyed and a modify request with a null icon replaces it.
\<close>

theorem set_icon_conversion_failure_counterexample:
  "fst (save_pixbuf_to_temp readonly_tmp_posix rgb_1x1 ''pchat-1700000000'') = None \<and>
   linux_current_icon indicator_tray = Some rgba_2x1 \<and>
   map_option linux_current_icon
     (fst (tray_linux_set_icon readonly_tmp_posix (Some indicator_tray) (Some rgb_1x1))) =
     Some (Some rgb_1x1) \<and>
   rgb_1x1 \<noteq> rgba_2x1 \<and>
   snd (tray_linux_set_icon readonly_tmp_posix (Some indicator_tray) (Some rgb_1x1)) =
     [g_object_unref rgba_2x1, unlink ''/tmp/pchat-tray-pchat-normal-4242.png'',
      g_object_ref rgb_1x1, g_warning ''Failed to save tray icon''] \<and>
   pixbuf_to_hicon no_icon_win32 (Some rgb_1x1) = Inr None \<and>
   win_hicon shown_tray = Some icon_2x1 \<and> win_visible shown_tray \<and>
   tray_windows_set_icon no_icon_win32 (Some shown_tray) (Some rgb_1x1) =
     Inr (Some (shown_tray\<lparr>win_current_icon := Some rgb_1x1, win_hicon := None,
                          win_nid := (win_nid shown_tray)\<lparr>nid_hIcon := None\<rparr>\<rparr>),
          [DestroyIcon icon_2x1, g_object_unref rgba_2x1, g_object_ref rgb_1x1,
           Shell_NotifyIconW NIM_MODIFY ((win_nid shown_tray)\<lparr>nid_hIcon := None\<rparr>)])"
proof -
  have conv: "pixbuf_to_hicon no_icon_win32 (Some rgb_1x1) = Inr None"
    by (simp add: pixbuf_to_hicon_def no_icon_win32_def rgb_1x1_def copy_rows.simps
          copy_row.simps convert_pixel_def read_byte_def)
  have ne: "rgb_1x1 \<noteq> rgba_2x1" by (simp add: rgb_1x1_def rgba_2x1_def)
  have t: "printf_d (g_get_real_time readonly_tmp_posix) = ''1700000000''"
    by (simp add: readonly_tmp_posix_def printf_d_def printf_u.simps)
  have lin: "tray_linux_set_icon readonly_tmp_posix (Some indicator_tray) (Some rgb_1x1) =
     (Some (indicator_tray\<lparr>linux_current_icon := Some rgb_1x1,
                           linux_icon_name := Some ''pchat-1700000000'',
                           linux_temp_icon_path := None\<rparr>),
      [g_object_unref rgba_2x1, unlink ''/tmp/pchat-tray-pchat-normal-4242.png'',
       g_object_ref rgb_1x1, g_warning ''Failed to save tray icon''])"
    by (simp add: tray_linux_set_icon_def t save_pixbuf_to_temp_def Let_def)
       (simp add: readonly_tmp_posix_def indicator_tray_def)
  have win: "tray_windows_set_icon no_icon_win32 (Some shown_tray) (Some rgb_1x1) =
     Inr (Some (shown_tray\<lparr>win_current_icon := Some rgb_1x1, win_hicon := None,
                          win_nid := (win_nid shown_tray)\<lparr>nid_hIcon := None\<rparr>\<rparr>),
          [DestroyIcon icon_2x1, g_object_unref rgba_2x1, g_object_ref rgb_1x1,
           Shell_NotifyIconW NIM_MODIFY ((win_nid shown_tray)\<lparr>nid_hIcon := None\<rparr>)])"
    by (simp add: tray_windows_set_icon_def conv Let_def) (simp add: shown_tray_def)
  have sv: "fst (save_pixbuf_to_temp readonly_tmp_posix rgb_1x1 ''pchat-1700000000'') = None"
    by (simp add: save_pixbuf_to_temp_def readonly_tmp_posix_def)
  show ?thesis
    using conv ne lin win sv by (simp add: indicator_tray_def shown_tray_def)
qed

section \<open>Creation with no image and no tooltip\<close>

text \<open>
  Claim C4, as amended. \<open>create(null, null)\<close> succeeds on every backend (on the
  shell-notification-icon backend when the hidden window can be created) and yields a
  handle with no icon applied: no cached image, no native icon resource, no temp file.
  \<open>is_embedded\<close> is initially false on the shell-notification-icon and status-bar-item
  backends; on the desktop-indicator backend creation sets the status to Active, so
  \<open>is_embedded\<close> is initially true.
\<close>

theorem create_null_null:
  "tray_linux_new env None None =
     (Some \<lparr>linux_indicator =
              Some ((app_indicator_new ''pchat-tray'' ''pchat'')
                      \<lparr>ai_menu_attached := True, ai_status := APP_INDICATOR_STATUS_ACTIVE\<rparr>),
            linux_menu = Some [], linux_current_icon = None, linux_icon_name = None,
            linux_temp_icon_path = None,
            linux_activate_callback = None, linux_activate_userdata = 0,
            linux_menu_callback = None, linux_menu_userdata = 0,
            linux_embedded_callback = None, linux_embedded_userdata = 0\<rparr>, []) \<and>
   tray_linux_is_embedded (fst (tray_linux_new env None None)) \<and>
   (case CreateWindowExW wenv of
      None \<Rightarrow> tray_windows_new wenv None None = Inr (None, [g_free_backend])
    | Some h \<Rightarrow>
        (case tray_windows_new wenv None None of
           Inl e \<Rightarrow> False
         | Inr (handle, calls) \<Rightarrow>
             handle \<noteq> None \<and> calls = [] \<and> \<not> tray_windows_is_embedded handle \<and>
             map_option win_hicon handle = Some None \<and>
             map_option win_current_icon handle = Some None \<and>
             map_option (nid_hIcon \<circ> win_nid) handle = Some None)) \<and>
   (case tray_macos_new None None of
      (handle, data, calls) \<Rightarrow>
        handle \<noteq> None \<and> calls = [] \<and> \<not> tray_macos_is_embedded handle \<and>
        map_option mac_currentIcon handle = Some None \<and>
        map_option mac_currentImage handle = Some None \<and>
        map_option mac_statusItem handle = Some None \<and> def_icon data = None)"
  by (simp add: tray_linux_new_def tray_linux_is_embedded_def app_indicator_get_status_def
        tray_windows_new_def tray_windows_is_embedded_def
        tray_macos_new_def tray_macos_is_embedded_def split: option.splits)

text \<open>
  Claim C4 as stated fails on the desktop-indicator backend: the handle created with no
  image and no tooltip reports embedded.
\<close>

theorem create_null_null_counterexample:
  "\<not> (tray_linux_is_embedded (fst (tray_linux_new good_posix None None)) = False)"
  by (simp add: tray_linux_new_def tray_linux_is_embedded_def app_indicator_get_status_def)

section \<open>Null handles\<close>

text \<open>
  Claim C7. Every operation of the uniform operation set, on each of the three backends
  and in the dispatcher (whatever the macros are bound to), given a null handle returns
  the null handle, makes no call and reads no field; \<open>is_embedded\<close> returns false.
  The dispatcher's wrappers do not forward a null handle, except \<open>rebuild_menu\<close> on
  Linux, whose callee then does nothing.
\<close>

theorem null_handle_is_noop:
  "tray_linux_set_icon penv None icon = (None, []) \<and>
   tray_linux_set_tooltip None tooltip = (None, []) \<and>
   tray_linux_set_visible None visible = (None, []) \<and>
   tray_linux_is_embedded None = False \<and>
   tray_linux_set_activate_callback None click userdata = (None, []) \<and>
   tray_linux_set_menu_callback None menu_cb userdata = (None, []) \<and>
   tray_linux_set_embedded_callback None click userdata = (None, []) \<and>
   tray_linux_rebuild_menu None = (None, []) \<and>
   tray_linux_destroy None = [] \<and>
   tray_windows_set_icon wenv None icon = Inr (None, []) \<and>
   tray_windows_set_tooltip wenv None tooltip = (None, []) \<and>
   tray_windows_set_visible None visible = (None, []) \<and>
   tray_windows_is_embedded None = False \<and>
   tray_windows_set_activate_callback None click userdata = (None, []) \<and>
   tray_windows_set_menu_callback None menu_cb userdata = (None, []) \<and>
   tray_windows_set_embedded_callback None click userdata = (None, []) \<and>
   tray_windows_destroy None = [] \<and>
   tray_macos_set_icon menv None icon = Inr (None, []) \<and>
   tray_macos_set_tooltip None tooltip = (None, []) \<and>
   tray_macos_set_visible None visible = (None, []) \<and>
   tray_macos_is_embedded None = False \<and>
   tray_macos_set_activate_callback None click userdata = (None, []) \<and>
   tray_macos_set_menu_callback None menu_cb userdata = (None, []) \<and>
   tray_macos_set_embedded_callback None click userdata = (None, []) \<and>
   tray_macos_destroy None = [] \<and>
   tray_backend_set_icon m_set_icon None icon = None \<and>
   tray_backend_set_tooltip m_set_tooltip None tooltip = None \<and>
   tray_backend_set_visible m_set_visible None visible = None \<and>
   tray_backend_is_embedded m_is_embedded None = False \<and>
   tray_backend_set_activate_callback m_set_activate None click userdata = None \<and>
   tray_backend_set_menu_callback m_set_menu None menu_cb userdata = None \<and>
   tray_backend_set_embedded_callback m_set_embedded None click userdata = None \<and>
   tray_backend_destroy m_destroy None = None \<and>
   tray_backend_rebuild_menu (Some tray_linux_rebuild_menu) None = Some (None, []) \<and>
   tray_backend_rebuild_menu None (None :: 'b option) = (None :: 'r option)"
  by (simp add: tray_linux_set_icon_def tray_linux_set_tooltip_def tray_linux_set_visible_def
        tray_linux_is_embedded_def tray_linux_set_activate_callback_def
        tray_linux_set_menu_callback_def tray_linux_set_embedded_callback_def
        tray_linux_rebuild_menu_def tray_linux_destroy_def
        tray_windows_set_icon_def tray_windows_set_tooltip_def tray_windows_set_visible_def
        tray_windows_is_embedded_def tray_windows_set_activate_callback_def
        tray_windows_set_menu_callback_def tray_windows_set_embedded_callback_def
        tray_windows_destroy_def
        tray_macos_set_icon_def tray_macos_set_tooltip_def tray_macos_set_visible_def
        tray_macos_is_embedded_def tray_macos_set_activate_callback_def
        tray_macos_set_menu_callback_def tray_macos_set_embedded_callback_def
        tray_macos_destroy_def
        tray_backend_set_icon_def tray_backend_set_tooltip_def tray_backend_set_visible_def
        tray_backend_is_embedded_def tray_backend_set_activate_callback_def
        tray_backend_set_menu_callback_def tray_backend_set_embedded_callback_def
        tray_backend_destroy_def tray_backend_rebuild_menu_def split: option.splits)

section \<open>The menu of the desktop-indicator backend\<close>

lemma destroy_children_calls: "snd (destroy_children ws menu) = map gtk_widget_destroy ws"
  by (induction ws arbitrary: menu) (simp_all add: case_prod_unfold Let_def)

lemma destroy_children_empty: "set menu \<subseteq> set ws \<Longrightarrow> fst (destroy_children ws menu) = []"
proof (induction ws arbitrary: menu)
  case Nil
  then show ?case by simp
next
  case (Cons w ws)
  have "set (removeAll w menu) \<subseteq> set ws" using Cons.prems by auto
  then show ?case using Cons.IH by (simp add: case_prod_unfold Let_def)
qed

text \<open>
  Claim C8. On the desktop-indicator backend, \<open>rebuild_menu\<close> on a handle with its menu
  container does nothing when no menu callback is registered; otherwise it destroys
  every child of the container, in order, and then calls the menu callback exactly
  once, on the emptied container with button 3 and time 0, so that the menu holds
  exactly what this one call produced from an empty container.
\<close>

theorem rebuild_menu_exactly_latest_items:
  assumes menu: "linux_menu b = Some menu"
  shows "tray_linux_rebuild_menu (Some b) =
           (case linux_menu_callback b of
              None \<Rightarrow> (Some b, [])
            | Some cb \<Rightarrow>
                (Some (b\<lparr>linux_menu := Some (cb [] 3 0 (linux_menu_userdata b))\<rparr>),
                 map gtk_widget_destroy menu @ [menu_callback (Some []) 3 0 (linux_menu_userdata b)]))"
proof (cases "linux_menu_callback b")
  case None
  then show ?thesis using menu by (simp add: tray_linux_rebuild_menu_def)
next
  case (Some cb)
  have "destroy_children menu menu = ([], map gtk_widget_destroy menu)"
    using destroy_children_empty [of menu menu] destroy_children_calls [of menu menu]
    by (simp add: prod_eq_iff)
  then show ?thesis using menu Some by (simp add: tray_linux_rebuild_menu_def)
qed

theorem rebuild_menu_exactly_latest_items_witness:
  "linux_menu indicator_tray = Some [11, 12] \<and>
   linux_menu_callback indicator_tray = Some two_items \<and>
   tray_linux_rebuild_menu (Some indicator_tray) =
     (Some (indicator_tray\<lparr>linux_menu := Some [101, 102]\<rparr>),
      [gtk_widget_destroy 11, gtk_widget_destroy 12, menu_callback (Some []) 3 0 5])"
proof -
  have menu: "linux_menu indicator_tray = Some [11, 12]"
    and cb: "linux_menu_callback indicator_tray = Some two_items"
    and ud: "linux_menu_userdata indicator_tray = 5"
    by (simp_all add: indicator_tray_def)
  from rebuild_menu_exactly_latest_items [OF menu]
  show ?thesis using menu by (simp add: cb ud two_items_def)
qed

text \<open>
  Claim C9. On the desktop-indicator backend, \<open>set_menu_callback\<close> with a callback that
  is not null stores it and calls it at once, exactly once, with the persistent menu
  container, button 3 and time 0; on a handle fresh from creation the container is
  still empty at that call.
\<close>

theorem set_menu_callback_builds_initial_menu:
  assumes menu: "linux_menu b = Some menu"
  shows "tray_linux_set_menu_callback (Some b) (Some cb) userdata =
           (Some (b\<lparr>linux_menu_callback := Some cb, linux_menu_userdata := userdata,
                     linux_menu := Some (cb menu 3 0 userdata)\<rparr>),
            [menu_callback (Some menu) 3 0 userdata]) \<and>
         snd (tray_linux_set_menu_callback (fst (tray_linux_new env icon tooltip)) (Some cb) userdata) =
            [menu_callback (Some []) 3 0 userdata]"
  using menu
  by (simp add: tray_linux_set_menu_callback_def tray_linux_new_def Let_def case_prod_unfold)

theorem set_menu_callback_builds_initial_menu_witness:
  "linux_menu fresh_indicator_tray = Some [] \<and>
   tray_linux_set_menu_callback (Some fresh_indicator_tray) (Some two_items) 5 =
     (Some (fresh_indicator_tray\<lparr>linux_menu_callback := Some two_items, linux_menu_userdata := 5,
                                  linux_menu := Some [101, 102]\<rparr>),
      [menu_callback (Some []) 3 0 5])"
proof -
  have menu: "linux_menu fresh_indicator_tray = Some []"
    by (simp add: fresh_indicator_tray_def)
  from set_menu_callback_builds_initial_menu [OF menu, of two_items 5]
  show ?thesis using menu by (simp add: two_items_def)
qed

section \<open>The status-bar-item backend while creation is pending\<close>

text \<open>
  Claim C10. On the status-bar-item backend, \<open>is_embedded\<close> returns the stored
  visibility flag; creation initialises the flag to false and \<open>set_visible\<close> writes it
  whether or not a status item exists. So \<open>set_visible(handle, true)\<close> on a handle whose
  creation is still pending makes \<open>is_embedded\<close> true while the handle has no status item.
\<close>

theorem macos_is_embedded_is_visibility_flag:
  "tray_macos_is_embedded (Some b) = mac_visible b \<and>
   map_option mac_visible (fst (tray_macos_new icon tooltip)) = Some False \<and>
   tray_macos_set_visible (Some b) visible =
     (Some (b\<lparr>mac_visible := visible,
               mac_statusItem :=
                 map_option (\<lambda>item. item\<lparr>si_isVisible := visible\<rparr>) (mac_statusItem b)\<rparr>), []) \<and>
   tray_macos_is_embedded (fst (tray_macos_set_visible (Some b) visible)) = visible \<and>
   tray_macos_is_embedded (fst (tray_macos_set_visible (fst (tray_macos_new icon tooltip)) True)) \<and>
   map_option mac_statusItem (fst (tray_macos_set_visible (fst (tray_macos_new icon tooltip)) True))
     = Some None"
  by (simp add: tray_macos_is_embedded_def tray_macos_new_def tray_macos_set_visible_def)












end
